theory Spec2Isabelle
  imports Main
begin

section \<open>The floating IP scheduler plugin\<close>

text \<open>
  A shallow embedding of \<^verbatim>\<open>pkg/ipam/schedulerplugin/floatingip_plugin.go\<close>.
  The plugin is a record of its mutable fields; a method that assigns a field or calls
  out takes the plugin and returns the updated plugin beside its result, a method that
  only reads takes the plugin and returns its result. The collaborators the file calls but does not
  define (the IPAM, the orchestrator client, the TApp lister, the JSON and string library)
  are the fields of an environment record, so every theorem holds for any implementation
  of them. Each mutating IPAM call and each client call is appended to the \<open>calls\<close> log
  of the plugin, which is how "is invoked" and "is not invoked" are stated.
\<close>

subsection \<open>Errors\<close>

text \<open>
  Go errors by their message. \<open>ServerTimeout\<close> is the orchestrator's status error that
  \<^verbatim>\<open>k8serrs.IsServerTimeout\<close> recognises, \<open>ErrWaitTimeout\<close> the error of an exhausted
  \<^verbatim>\<open>wait.Poll\<close>.
\<close>

datatype error = Msg string | ServerTimeout string | ErrWaitTimeout

fun Error_str :: "error \<Rightarrow> string" where
  "Error_str (Msg m) = m"
| "Error_str (ServerTimeout m) = m"
| "Error_str ErrWaitTimeout = ''timed out waiting for the condition''"

fun IsServerTimeout :: "error option \<Rightarrow> bool" where
  "IsServerTimeout (Some (ServerTimeout m)) = True"
| "IsServerTimeout e = False"

text \<open>A method that can panic either returns or panics with the runtime's message.\<close>

datatype 'a outcome = Returned 'a | Panic string

subsection \<open>Objects of the orchestrator\<close>

text \<open>A Go map that may be nil: \<open>None\<close> is the nil map, reading it finds no key.\<close>

type_synonym LabelMap = "(string \<rightharpoonup> string) option"

fun lookup :: "LabelMap \<Rightarrow> string \<Rightarrow> string option" where
  "lookup None k = None"
| "lookup (Some m) k = m k"

text \<open>Indexing a Go map of strings: the zero value \<open>''''\<close> for a missing key.\<close>

definition index :: "LabelMap \<Rightarrow> string \<Rightarrow> string" where
  "index m k = (case lookup m k of None \<Rightarrow> [] | Some v \<Rightarrow> v)"

record ObjectMeta =
  Name :: string
  Namespace :: string
  Labels :: LabelMap
  Annotations :: LabelMap

record Pod = ObjectMeta +
  Phase :: string
  Reason :: string

record NodeAddress =
  Type :: string
  Address :: string

record Node = ObjectMeta +
  Addresses :: "NodeAddress list"

text \<open>
  A TApp by the part the plugin reads: \<^verbatim>\<open>Spec.Statuses\<close>, a map from instance index to
  instance status, as the list of its entries in the order the \<^verbatim>\<open>range\<close> visits them.
\<close>

record TApp =
  Statuses :: "(string \<times> string) list"

text \<open>Constants of the orchestrator's API packages.\<close>

definition PodFailed :: string where "PodFailed = ''Failed''"
definition NodeInternalIP :: string where "NodeInternalIP = ''InternalIP''"
definition TAppInstanceKey :: string where "TAppInstanceKey = ''tapp_instance_key''"
definition INSTANCE_KILLED :: string where "INSTANCE_KILLED = ''killed''"
definition ANNOTATION_FLOATINGIP :: string where "ANNOTATION_FLOATINGIP = ''floatingip''"

subsection \<open>Selectors\<close>

text \<open>
  \<^verbatim>\<open>labels.SelectorFromSet\<close> of a set of pairs: it matches the labels that hold every pair.
\<close>

type_synonym Selector = "(string \<times> string) list"

definition Matches :: "Selector \<Rightarrow> LabelMap \<Rightarrow> bool" where
  "Matches sel ls = list_all (\<lambda>(k, v). lookup ls k = Some v) sel"

definition objectSelector :: Selector where
  "objectSelector = [(''network'', ''FLOATINGIP'')]"

definition nodeSelector :: Selector where
  "nodeSelector = [(''network'', ''floatingip'')]"

definition fipInvariantSeletor :: Selector where
  "fipInvariantSeletor = [(''floatingip'', ''invariant'')]"

subsection \<open>Addresses and the IPAM's answers\<close>

text \<open>
  A \<^verbatim>\<open>net.IP\<close> by its text; a \<^verbatim>\<open>*net.IPNet\<close> by the text its \<^verbatim>\<open>String()\<close> gives, which
  is all the plugin reads of it.
\<close>

type_synonym IP = string

datatype IPNet = IPNet string

fun IPNet_String :: "IPNet \<Rightarrow> string" where
  "IPNet_String (IPNet s) = s"

text \<open>
  Modelled from the spec: \<^verbatim>\<open>floatingip.IPInfo\<close>, declared outside this file, with the fields
  the spec lists for it (ip, mask, gateway, vlan, routableSubnet).
\<close>

record IPInfo =
  info_IP :: IP
  info_Mask :: nat
  info_Vlan :: nat
  info_Gateway :: IP
  info_RoutableSubnet :: string

subsection \<open>The plugin and its collaborators\<close>

record ('f, 'd) Conf =
  FloatingIPs :: "'f list"
  DBConfig :: 'd
  ResyncInterval :: nat
  ConfigMapName :: string
  ConfigMapNamespace :: string

text \<open>The calls the log records, with their arguments.\<close>

datatype 'f call =
    IPAM_ConfigurePool "'f list"
  | IPAM_AllocateInSubnet string "IPNet option"
  | IPAM_Release "string list"
  | Client_ConfigMaps_Get string string
  | Client_Nodes_Get string
  | Client_Pods_Patch string string string

fun is_IPAM_call :: "'f call \<Rightarrow> bool" where
  "is_IPAM_call (IPAM_ConfigurePool defs) = True"
| "is_IPAM_call (IPAM_AllocateInSubnet key subnet) = True"
| "is_IPAM_call (IPAM_Release keys) = True"
| "is_IPAM_call c = False"

record ('i, 'w, 'f, 'd) FloatingIPPlugin =
  ipam :: 'i
  nodeSubnet :: "string \<rightharpoonup> IPNet"
  Client :: 'w
  lastFIPConf :: string
  conf :: "('f, 'd) Conf"
  unreleased :: "Pod list"
  calls :: "'f call list"

text \<open>
  The environment: \<open>'i\<close> is the state of the IPAM and its store, \<open>'w\<close> the state of the
  orchestrator as the client sees it, \<open>'f\<close> a pool definition, \<open>'d\<close> a database
  configuration. The queries of the IPAM read its state; the other IPAM operations and the
  client's requests return the next state. \<open>nodeTicks\<close> and \<open>patchTicks\<close> are the numbers of
  ticks the pollers of \<^verbatim>\<open>queryNodeSubnet\<close> (100 ms, one minute) and of \<^verbatim>\<open>Bind\<close>
  (300 ms, 20 s) deliver before they time out.
\<close>

record ('i, 'w, 'f, 'd) env =
  ConfigurePool :: "'f list \<Rightarrow> 'i \<Rightarrow> error option \<times> 'i"
  RoutableSubnet :: "'i \<Rightarrow> IP \<Rightarrow> IPNet option"
  QueryRoutableSubnetByKey :: "'i \<Rightarrow> string \<Rightarrow> error + string list"
  AllocateInSubnet :: "string \<Rightarrow> IPNet option \<Rightarrow> 'i \<Rightarrow> (error + IP) \<times> 'i"
  QueryFirst :: "'i \<Rightarrow> string \<Rightarrow> error + IPInfo option"
  Release :: "string list \<Rightarrow> 'i \<Rightarrow> error option \<times> 'i"
  ConfigMaps_Get :: "string \<Rightarrow> string \<Rightarrow> 'w \<Rightarrow> (error + (string \<rightharpoonup> string)) \<times> 'w"
  Nodes_Get :: "string \<Rightarrow> 'w \<Rightarrow> (error + Node) \<times> 'w"
  Pods_Patch :: "string \<Rightarrow> string \<Rightarrow> string \<Rightarrow> 'w \<Rightarrow> error option \<times> 'w"
  GetPodTApps :: "'w \<Rightarrow> Pod \<Rightarrow> error + TApp list"
  ParseIP :: "string \<Rightarrow> IP option"
  ToLower :: "string \<Rightarrow> string"
  Marshal_IPInfo :: "IPInfo \<Rightarrow> error + string"
  Marshal_Annotations :: "(string \<times> string) list \<Rightarrow> error + string"
  Unmarshal_FloatingIPs :: "string \<Rightarrow> error + 'f list"
  keyInDB :: "Pod \<Rightarrow> string"
  fmtKey :: "string \<Rightarrow> string \<Rightarrow> string"
  db_Run :: "'d \<Rightarrow> error + 'i"
  nodeTicks :: nat
  patchTicks :: nat

subsection \<open>Polling\<close>

text \<open>
  \<^verbatim>\<open>wait.WaitFor\<close> of the orchestrator's client library: the condition runs once after every
  tick of the poller and once more when the poller closes its channel at the timeout; an
  error of the condition ends the wait with that error, \<open>done\<close> ends it with success, and
  the closed channel ends it with \<open>ErrWaitTimeout\<close>. The argument is the number of ticks
  before the timeout.
\<close>

fun WaitFor :: "nat \<Rightarrow> ('s \<Rightarrow> (bool \<times> error option) \<times> 's) \<Rightarrow> 's \<Rightarrow> error option \<times> 's" where
  "WaitFor 0 fn s =
     (case fn s of
        ((ok, Some err), s') \<Rightarrow> (Some err, s')
      | ((ok, None), s') \<Rightarrow> if ok then (None, s') else (Some ErrWaitTimeout, s'))"
| "WaitFor (Suc n) fn s =
     (case fn s of
        ((ok, Some err), s') \<Rightarrow> (Some err, s')
      | ((ok, None), s') \<Rightarrow> if ok then (None, s') else WaitFor n fn s')"

definition Poll :: "nat \<Rightarrow> ('s \<Rightarrow> (bool \<times> error option) \<times> 's) \<Rightarrow> 's \<Rightarrow> error option \<times> 's" where
  "Poll ticks condition s = WaitFor ticks condition s"

definition PollImmediate ::
  "nat \<Rightarrow> ('s \<Rightarrow> (bool \<times> error option) \<times> 's) \<Rightarrow> 's \<Rightarrow> error option \<times> 's" where
  "PollImmediate ticks condition s =
     (case condition s of
        ((done, Some err), s') \<Rightarrow> (Some err, s')
      | ((done, None), s') \<Rightarrow> if done then (None, s') else WaitFor ticks condition s')"

text \<open>\<^verbatim>\<open>wait.PollInfinite\<close> has no timeout: a condition that is never done never returns.\<close>

partial_function (option) PollInfinite ::
  "('s \<Rightarrow> (bool \<times> error option) \<times> 's) \<Rightarrow> 's \<Rightarrow> (error option \<times> 's) option" where
  "PollInfinite condition s =
     (case snd (fst (condition s)) of
        Some err \<Rightarrow> Some (Some err, snd (condition s))
      | None \<Rightarrow> if fst (fst (condition s)) then Some (None, snd (condition s))
                else PollInfinite condition (snd (condition s)))"

subsection \<open>Selecting the pods and the subnet of a node\<close>

definition wantedObject :: "'a ObjectMeta_scheme \<Rightarrow> bool" where
  "wantedObject o' =
     (case Labels o' of
        None \<Rightarrow> False
      | Some labelMap \<Rightarrow> if \<not> Matches objectSelector (Some labelMap) then False else True)"

fun getNodeIP_range :: "('i, 'w, 'f, 'd) env \<Rightarrow> NodeAddress list \<Rightarrow> IP option" where
  "getNodeIP_range E [] = None"
| "getNodeIP_range E (a # as) =
     (if Type a = NodeInternalIP then ParseIP E (Address a) else getNodeIP_range E as)"

definition getNodeIP :: "('i, 'w, 'f, 'd) env \<Rightarrow> Node \<Rightarrow> IP option" where
  "getNodeIP E node = getNodeIP_range E (Addresses node)"

definition tappInstanceKilled :: "('i, 'w, 'f, 'd) env \<Rightarrow> string \<Rightarrow> bool" where
  "tappInstanceKilled E status \<longleftrightarrow> ToLower E status = ToLower E INSTANCE_KILLED"

definition evicted :: "Pod \<Rightarrow> bool" where
  "evicted pod \<longleftrightarrow> Phase pod = PodFailed \<and> Reason pod = ''Evicted''"

text \<open>The part of both lookups after the node is known: its address, then the IPAM.\<close>

definition subnetOfNode ::
  "('i, 'w, 'f, 'd) env \<Rightarrow> ('i, 'w, 'f, 'd) FloatingIPPlugin \<Rightarrow> Node \<Rightarrow> error + IPNet" where
  "subnetOfNode E p node =
     (case getNodeIP E node of
        None \<Rightarrow> Inl (Msg ''FloatingIPPlugin:UnknowNode'')
      | Some nodeIP \<Rightarrow>
          (case RoutableSubnet E (ipam p) nodeIP of
             Some ipNet \<Rightarrow> Inr ipNet
           | None \<Rightarrow> Inl (Msg ''FloatingIPPlugin:NoFIPConfigNode'')))"

text \<open>The lookup of \<^verbatim>\<open>Filter\<close>: it reads the cache and the IPAM and assigns nothing.\<close>

definition getNodeSubnet ::
  "('i, 'w, 'f, 'd) env \<Rightarrow> ('i, 'w, 'f, 'd) FloatingIPPlugin \<Rightarrow> Node \<Rightarrow> error + IPNet" where
  "getNodeSubnet E p node =
     (case nodeSubnet p (Name node) of
        None \<Rightarrow> subnetOfNode E p node
      | Some subnet \<Rightarrow> Inr subnet)"

text \<open>
  The lookup of \<^verbatim>\<open>Bind\<close>: on a cache miss the node is fetched, again on every server
  timeout until the poller gives up. The condition keeps the last answer in \<open>node\<close>.
\<close>

definition Nodes_Get_condition ::
  "('i, 'w, 'f, 'd) env \<Rightarrow> string \<Rightarrow>
   Node option \<times> ('i, 'w, 'f, 'd) FloatingIPPlugin \<Rightarrow>
   (bool \<times> error option) \<times> (Node option \<times> ('i, 'w, 'f, 'd) FloatingIPPlugin)" where
  "Nodes_Get_condition E nodeName s =
     (let p = snd s;
          (r, w') = Nodes_Get E nodeName (Client p);
          p' = p\<lparr>Client := w', calls := calls p @ [Client_Nodes_Get nodeName]\<rparr>;
          node = (case r of Inl e \<Rightarrow> None | Inr n \<Rightarrow> Some n);
          err = (case r of Inl e \<Rightarrow> Some e | Inr n \<Rightarrow> None)
      in if \<not> IsServerTimeout err then ((True, err), (node, p')) else ((False, None), (node, p')))"

definition queryNodeSubnet ::
  "('i, 'w, 'f, 'd) env \<Rightarrow> string \<Rightarrow> ('i, 'w, 'f, 'd) FloatingIPPlugin \<Rightarrow>
   (error + IPNet) \<times> ('i, 'w, 'f, 'd) FloatingIPPlugin" where
  "queryNodeSubnet E nodeName p =
     (case nodeSubnet p nodeName of
        Some subnet \<Rightarrow> (Inr subnet, p)
      | None \<Rightarrow>
          (case Poll (nodeTicks E) (Nodes_Get_condition E nodeName) (None, p) of
             (Some err, (node, p')) \<Rightarrow> (Inl err, p')
           | (None, (None, p')) \<Rightarrow> (Inl (Msg ''FloatingIPPlugin:UnknowNode''), p')
               \<comment> \<open>not reached: a wait that ends without error has fetched the node\<close>
           | (None, (Some node, p')) \<Rightarrow> (subnetOfNode E p' node, p')))"

subsection \<open>Filter\<close>

text \<open>
  The loop of \<^verbatim>\<open>Filter\<close> over the candidate nodes, with \<open>filteredNodes\<close> and
  \<open>failedNodesMap\<close> as accumulators. \<open>subnets\<close> is the slice the string set is built from.
\<close>

fun Filter_range ::
  "('i, 'w, 'f, 'd) env \<Rightarrow> ('i, 'w, 'f, 'd) FloatingIPPlugin \<Rightarrow> string list \<Rightarrow> Node list \<Rightarrow>
   Node list \<times> (string \<rightharpoonup> string) \<Rightarrow> Node list \<times> (string \<rightharpoonup> string)" where
  "Filter_range E p subnets [] (filteredNodes, failedNodesMap) = (filteredNodes, failedNodesMap)"
| "Filter_range E p subnets (node # nodes) (filteredNodes, failedNodesMap) =
     (if \<not> Matches nodeSelector (Labels node)
      then Filter_range E p subnets nodes
             (filteredNodes, failedNodesMap(Name node \<mapsto> ''FloatingIPPlugin:UnlabelNode''))
      else
        (case getNodeSubnet E p node of
           Inl err \<Rightarrow>
             Filter_range E p subnets nodes
               (filteredNodes, failedNodesMap(Name node \<mapsto> Error_str err))
         | Inr subnet \<Rightarrow>
             if IPNet_String subnet \<in> set subnets
             then Filter_range E p subnets nodes (filteredNodes @ [node], failedNodesMap)
             else Filter_range E p subnets nodes
                    (filteredNodes, failedNodesMap(Name node \<mapsto> ''FloatingIPPlugin:NoFIPLeft''))))"

definition Filter ::
  "('i, 'w, 'f, 'd) env \<Rightarrow> ('i, 'w, 'f, 'd) FloatingIPPlugin \<Rightarrow> Pod \<Rightarrow> Node list \<Rightarrow>
   Node list \<times> (string \<rightharpoonup> string) \<times> error option" where
  "Filter E p pod nodes =
     (if \<not> wantedObject pod then (nodes, Map.empty, None)
      else
        let key = keyInDB E pod in
        (case QueryRoutableSubnetByKey E (ipam p) key of
           Inl err \<Rightarrow>
             ([], Map.empty,
              Some (Msg (''failed to query by key '' @ key @ '': '' @ Error_str err)))
         | Inr subnets \<Rightarrow>
             if length subnets \<noteq> 0
             then (case Filter_range E p subnets nodes ([], Map.empty) of
                     (filteredNodes, failedNodesMap) \<Rightarrow> (filteredNodes, failedNodesMap, None))
             else
               (case QueryRoutableSubnetByKey E (ipam p) [] of
                  Inl err \<Rightarrow>
                    ([], Map.empty,
                     Some (Msg (''failed to query allocatable subnet: '' @ Error_str err)))
                | Inr subnets' \<Rightarrow>
                    (case Filter_range E p subnets' nodes ([], Map.empty) of
                       (filteredNodes, failedNodesMap) \<Rightarrow>
                         (filteredNodes, failedNodesMap, None)))))"

subsection \<open>Bind\<close>

text \<open>The end of \<^verbatim>\<open>allocateIP\<close>: the record as the one annotation of the bind map.\<close>

definition marshalBind ::
  "('i, 'w, 'f, 'd) env \<Rightarrow> IPInfo \<Rightarrow> error + (string \<times> string) list option" where
  "marshalBind E ipInfo =
     (case Marshal_IPInfo E ipInfo of
        Inl err \<Rightarrow> Inl err
      | Inr data \<Rightarrow> Inr (Some [(ANNOTATION_FLOATINGIP, data)]))"

text \<open>
  \<^verbatim>\<open>allocateIP\<close>. In the allocating branch the source assigns the error of
  \<^verbatim>\<open>queryNodeSubnet\<close> to \<open>err\<close> and overwrites it with the error of \<^verbatim>\<open>AllocateInSubnet\<close>
  before reading it, so the model passes on the subnet, nil after a failed lookup, and
  drops the error.
\<close>

definition allocateIP ::
  "('i, 'w, 'f, 'd) env \<Rightarrow> string \<Rightarrow> string \<Rightarrow> ('i, 'w, 'f, 'd) FloatingIPPlugin \<Rightarrow>
   (error + (string \<times> string) list option) \<times> ('i, 'w, 'f, 'd) FloatingIPPlugin" where
  "allocateIP E key nodeName p =
     (case QueryFirst E (ipam p) key of
        Inl err \<Rightarrow>
          (Inl (Msg (''failed to query floating ip by key '' @ key @ '': '' @ Error_str err)), p)
      | Inr (Some ipInfo) \<Rightarrow> (marshalBind E ipInfo, p)
      | Inr None \<Rightarrow>
          (case queryNodeSubnet E nodeName p of
             (r, p1) \<Rightarrow>
               let subnet = (case r of Inl err \<Rightarrow> None | Inr ipNet \<Rightarrow> Some ipNet);
                   a = AllocateInSubnet E key subnet (ipam p1);
                   p2 = p1\<lparr>ipam := snd a,
                           calls := calls p1 @ [IPAM_AllocateInSubnet key subnet]\<rparr>
               in (case fst a of
                     Inl err \<Rightarrow> (Inl err, p2)
                   | Inr ip \<Rightarrow>
                       (case QueryFirst E (ipam p2) key of
                          Inl err \<Rightarrow>
                            (Inl (Msg (''failed to query floating ip by key '' @ key @ '': ''
                                       @ Error_str err)), p2)
                        | Inr None \<Rightarrow>
                            (Inl (Msg (''nil floating ip for key '' @ key @ '': <nil>'')), p2)
                        | Inr (Some ipInfo) \<Rightarrow> (marshalBind E ipInfo, p2)))))"

definition releasePodIP ::
  "('i, 'w, 'f, 'd) env \<Rightarrow> string \<Rightarrow> ('i, 'w, 'f, 'd) FloatingIPPlugin \<Rightarrow>
   error option \<times> ('i, 'w, 'f, 'd) FloatingIPPlugin" where
  "releasePodIP E key p =
     (case QueryFirst E (ipam p) key of
        Inl err \<Rightarrow>
          (Some (Msg (''failed to query floating ip of '' @ key @ '': '' @ Error_str err)), p)
      | Inr None \<Rightarrow> (None, p)
      | Inr (Some ipInfo) \<Rightarrow>
          let r = Release E [key] (ipam p);
              p' = p\<lparr>ipam := snd r, calls := calls p @ [IPAM_Release [key]]\<rparr>
          in (case fst r of
                Some err \<Rightarrow>
                  (Some (Msg (''failed to release floating ip of '' @ key @ '': ''
                              @ Error_str err)), p')
              | None \<Rightarrow> (None, p')))"

record ExtenderBindingArgs =
  PodName :: string
  PodNamespace :: string
  PodUID :: string
  BindNode :: string  \<comment> \<open>the field \<^verbatim>\<open>Node\<close> of the source\<close>

text \<open>The condition \<^verbatim>\<open>Bind\<close> polls: one merge patch; a failed patch is logged, not returned.\<close>

definition Patch_condition ::
  "('i, 'w, 'f, 'd) env \<Rightarrow> ExtenderBindingArgs \<Rightarrow> string \<Rightarrow>
   ('i, 'w, 'f, 'd) FloatingIPPlugin \<Rightarrow>
   (bool \<times> error option) \<times> ('i, 'w, 'f, 'd) FloatingIPPlugin" where
  "Patch_condition E args patchData p =
     (let r = Pods_Patch E (PodNamespace args) (PodName args) patchData (Client p);
          p' = p\<lparr>Client := snd r,
                 calls := calls p @ [Client_Pods_Patch (PodNamespace args) (PodName args) patchData]\<rparr>
      in (case fst r of
            Some err \<Rightarrow> ((False, None), p')
          | None \<Rightarrow> ((True, None), p')))"

text \<open>
  The second half of \<^verbatim>\<open>Bind\<close>: the bind map is serialised (an error of the serialiser is
  logged and leaves the patch empty) and patched onto the pod until a patch succeeds or
  the poller times out.
\<close>

definition Bind_patch ::
  "('i, 'w, 'f, 'd) env \<Rightarrow> ExtenderBindingArgs \<Rightarrow> string \<Rightarrow> (string \<times> string) list \<Rightarrow>
   ('i, 'w, 'f, 'd) FloatingIPPlugin \<Rightarrow> error option \<times> ('i, 'w, 'f, 'd) FloatingIPPlugin" where
  "Bind_patch E args key bind p1 =
     (let patchData = (case Marshal_Annotations E bind of Inl err \<Rightarrow> [] | Inr d \<Rightarrow> d) in
      (case PollImmediate (patchTicks E) (Patch_condition E args patchData) p1 of
         (Some err, p2) \<Rightarrow>
           (Some (Msg (''failed to update pod '' @ key @ '': '' @ Error_str err)), p2)
       | (None, p2) \<Rightarrow> (None, p2)))"

definition Bind ::
  "('i, 'w, 'f, 'd) env \<Rightarrow> ExtenderBindingArgs \<Rightarrow> ('i, 'w, 'f, 'd) FloatingIPPlugin \<Rightarrow>
   error option \<times> ('i, 'w, 'f, 'd) FloatingIPPlugin" where
  "Bind E args p =
     (let key = fmtKey E (PodName args) (PodNamespace args) in
      (case allocateIP E key (BindNode args) p of
         (Inl err, p1) \<Rightarrow> (Some err, p1)
       | (Inr None, p1) \<Rightarrow> (None, p1)
       | (Inr (Some bind), p1) \<Rightarrow> Bind_patch E args key bind p1))"

subsection \<open>Pod events and the release decision\<close>

text \<open>
  Sending on the channel \<open>unreleased\<close> appends to the queue the loop reads. The channel
  holds ten pods; a send on the full channel waits for the loop, which is not modelled.
\<close>

definition UpdatePod ::
  "('i, 'w, 'f, 'd) env \<Rightarrow> Pod \<Rightarrow> Pod \<Rightarrow> ('i, 'w, 'f, 'd) FloatingIPPlugin \<Rightarrow>
   error option \<times> ('i, 'w, 'f, 'd) FloatingIPPlugin" where
  "UpdatePod E oldPod newPod p =
     (if \<not> wantedObject newPod then (None, p)
      else if evicted newPod then (None, p\<lparr>unreleased := unreleased p @ [newPod]\<rparr>)
      else (None, p))"

definition RemovePod ::
  "('i, 'w, 'f, 'd) env \<Rightarrow> Pod \<Rightarrow> ('i, 'w, 'f, 'd) FloatingIPPlugin \<Rightarrow>
   error option \<times> ('i, 'w, 'f, 'd) FloatingIPPlugin" where
  "RemovePod E pod p =
     (if \<not> wantedObject pod then (None, p)
      else (None, p\<lparr>unreleased := unreleased p @ [pod]\<rparr>))"

text \<open>
  The \<^verbatim>\<open>range\<close> over the statuses of the TApp in \<^verbatim>\<open>unbind\<close>: the first entry that is
  killed and carries the pod's instance index returns the release; \<open>None\<close> is the loop
  running to its end.
\<close>

fun unbind_range ::
  "('i, 'w, 'f, 'd) env \<Rightarrow> string \<Rightarrow> Pod \<Rightarrow> (string \<times> string) list \<Rightarrow>
   ('i, 'w, 'f, 'd) FloatingIPPlugin \<Rightarrow>
   (error option \<times> ('i, 'w, 'f, 'd) FloatingIPPlugin) option" where
  "unbind_range E key pod [] p = None"
| "unbind_range E key pod ((i, status) # statuses) p =
     (if \<not> tappInstanceKilled E status \<or> i \<noteq> index (Labels pod) TAppInstanceKey
      then unbind_range E key pod statuses p
      else Some (releasePodIP E key p))"

definition unbind ::
  "('i, 'w, 'f, 'd) env \<Rightarrow> Pod \<Rightarrow> ('i, 'w, 'f, 'd) FloatingIPPlugin \<Rightarrow>
   error option outcome \<times> ('i, 'w, 'f, 'd) FloatingIPPlugin" where
  "unbind E pod p =
     (let key = keyInDB E pod in
      if \<not> Matches fipInvariantSeletor (Labels pod)
      then (case releasePodIP E key p of (r, p') \<Rightarrow> (Returned r, p'))
      else
        (case GetPodTApps E (Client p) pod of
           Inl err \<Rightarrow> (case releasePodIP E key p of (r, p') \<Rightarrow> (Returned r, p'))
         | Inr [] \<Rightarrow> (Panic ''runtime error: index out of range'', p)
         | Inr (tapp # tapps) \<Rightarrow>
             (case unbind_range E key pod (Statuses tapp) p of
                Some (r, p') \<Rightarrow> (Returned r, p')
              | None \<Rightarrow> (Returned None, p))))"

subsection \<open>The pool configuration\<close>

definition updateConfigMap ::
  "('i, 'w, 'f, 'd) env \<Rightarrow> ('i, 'w, 'f, 'd) FloatingIPPlugin \<Rightarrow>
   (bool \<times> error option) \<times> ('i, 'w, 'f, 'd) FloatingIPPlugin" where
  "updateConfigMap E p =
     (let ns = ConfigMapNamespace (conf p);
          name = ConfigMapName (conf p);
          r = ConfigMaps_Get E ns name (Client p);
          p1 = p\<lparr>Client := snd r, calls := calls p @ [Client_ConfigMaps_Get ns name]\<rparr>
      in (case fst r of
            Inl err \<Rightarrow>
              ((False, Some (Msg (''failed to get floatingip configmap '' @ name @ ''_'' @ ns
                                  @ '': '' @ Error_str err))), p1)
          | Inr cm_Data \<Rightarrow>
              (case cm_Data ''floatingips'' of
                 None \<Rightarrow>
                   ((False, Some (Msg (''configmap '' @ name @ ''_'' @ ns
                                       @ '' doesn't have a key floatingips''))), p1)
               | Some val \<Rightarrow>
                   if val = lastFIPConf p1 then ((False, None), p1)
                   else
                     (case Unmarshal_FloatingIPs E val of
                        Inl err \<Rightarrow>
                          ((False, Some (Msg (''failed to unmarshal configmap '' @ name @ ''_''
                                   @ ns @ '' val '' @ val @ '' to floatingip config''))), p1)
                      | Inr conf' \<Rightarrow>
                          let p2 = p1\<lparr>lastFIPConf := val\<rparr>;
                              c = ConfigurePool E conf' (ipam p2)
                          in ((True, None),
                              p2\<lparr>ipam := snd c,
                                 calls := calls p2 @ [IPAM_ConfigurePool conf']\<rparr>)))))"

text \<open>The condition the constructor polls: the error of the update is logged only.\<close>

definition updateConfigMap_condition ::
  "('i, 'w, 'f, 'd) env \<Rightarrow> ('i, 'w, 'f, 'd) FloatingIPPlugin \<Rightarrow>
   (bool \<times> error option) \<times> ('i, 'w, 'f, 'd) FloatingIPPlugin" where
  "updateConfigMap_condition E p =
     (case updateConfigMap E p of ((updated, err), p') \<Rightarrow> ((updated, None), p'))"

text \<open>
  \<^verbatim>\<open>NewFloatingIPPlugin\<close> up to its return; the periodic tasks it starts are not part of
  the value. \<open>None\<close> is the constructor that never returns. \<open>db_Run\<close> stands for the
  database recorder, its \<^verbatim>\<open>Run\<close> and \<^verbatim>\<open>floatingip.NewIPAM\<close>: the fresh IPAM or the
  error of \<^verbatim>\<open>Run\<close>. The orchestrator \<open>w\<close> comes with the factory arguments.
\<close>

definition NewFloatingIPPlugin ::
  "('i, 'w, 'f, 'd) env \<Rightarrow> ('f, 'd) Conf \<Rightarrow> 'w \<Rightarrow>
   (error + ('i, 'w, 'f, 'd) FloatingIPPlugin) option" where
  "NewFloatingIPPlugin E conf0 w =
     (let conf1 = (if ResyncInterval conf0 < 1 then conf0\<lparr>ResyncInterval := 1\<rparr> else conf0);
          conf2 = (if ConfigMapName conf1 = [] then conf1\<lparr>ConfigMapName := ''floatingip-config''\<rparr>
                   else conf1);
          conf3 = (if ConfigMapNamespace conf2 = []
                   then conf2\<lparr>ConfigMapNamespace := ''kube-system''\<rparr> else conf2)
      in (case db_Run E (DBConfig conf3) of
            Inl err \<Rightarrow> Some (Inl err)
          | Inr i \<Rightarrow>
              let plugin = \<lparr>ipam = i, nodeSubnet = Map.empty, Client = w, lastFIPConf = [],
                            conf = conf3, unreleased = [], calls = []\<rparr>
              in if length (FloatingIPs conf3) > 0
                 then
                   (let c = ConfigurePool E (FloatingIPs conf3) (ipam plugin);
                        plugin' = plugin\<lparr>ipam := snd c,
                                         calls := calls plugin
                                                  @ [IPAM_ConfigurePool (FloatingIPs conf3)]\<rparr>
                    in (case fst c of
                          Some err \<Rightarrow> Some (Inl err)
                        | None \<Rightarrow> Some (Inr plugin')))
                 else
                   (case PollInfinite (updateConfigMap_condition E) plugin of
                      None \<Rightarrow> None
                    | Some (Some err, plugin') \<Rightarrow>
                        Some (Inl (Msg (''failed to get floatingip config from configmap: ''
                                        @ Error_str err)))
                    | Some (None, plugin') \<Rightarrow> Some (Inr plugin'))))"

subsection \<open>The decisions as the specification words them\<close>

text \<open>
  The subnets a filter considers for a key: those in which the key owns an IP, or, when
  there is none, those with a free IP; \<open>None\<close> when a query fails.
\<close>

definition subnetsForKey ::
  "('i, 'w, 'f, 'd) env \<Rightarrow> ('i, 'w, 'f, 'd) FloatingIPPlugin \<Rightarrow> string \<Rightarrow> string list option" where
  "subnetsForKey E p key =
     (case QueryRoutableSubnetByKey E (ipam p) key of
        Inl err \<Rightarrow> None
      | Inr owned \<Rightarrow>
          if owned \<noteq> [] then Some owned
          else (case QueryRoutableSubnetByKey E (ipam p) [] of
                  Inl err \<Rightarrow> None
                | Inr free \<Rightarrow> Some free))"

text \<open>A node is accepted when it matches the node selector and its subnet is among them.\<close>

definition accepted ::
  "('i, 'w, 'f, 'd) env \<Rightarrow> ('i, 'w, 'f, 'd) FloatingIPPlugin \<Rightarrow> string list \<Rightarrow> Node \<Rightarrow> bool" where
  "accepted E p subnets node \<longleftrightarrow>
     Matches nodeSelector (Labels node) \<and>
     (case getNodeSubnet E p node of
        Inl err \<Rightarrow> False
      | Inr subnet \<Rightarrow> IPNet_String subnet \<in> set subnets)"

text \<open>The reason a node that is not accepted is rejected with.\<close>

definition rejection ::
  "('i, 'w, 'f, 'd) env \<Rightarrow> ('i, 'w, 'f, 'd) FloatingIPPlugin \<Rightarrow> Node \<Rightarrow> string" where
  "rejection E p node =
     (if \<not> Matches nodeSelector (Labels node) then ''FloatingIPPlugin:UnlabelNode''
      else (case getNodeSubnet E p node of
              Inl err \<Rightarrow> Error_str err
            | Inr subnet \<Rightarrow> ''FloatingIPPlugin:NoFIPLeft''))"

text \<open>
  The release decision of the reconciler: a pod outside the invariant selector, a failed
  TApp lookup, or a TApp whose status for the pod's instance index is killed.
\<close>

definition instanceKilled :: "('i, 'w, 'f, 'd) env \<Rightarrow> Pod \<Rightarrow> TApp \<Rightarrow> bool" where
  "instanceKilled E pod tapp \<longleftrightarrow>
     (case map_of (Statuses tapp) (index (Labels pod) TAppInstanceKey) of
        None \<Rightarrow> False
      | Some status \<Rightarrow> tappInstanceKilled E status)"

definition releases :: "('i, 'w, 'f, 'd) env \<Rightarrow> 'w \<Rightarrow> Pod \<Rightarrow> bool" where
  "releases E w pod \<longleftrightarrow>
     \<not> Matches fipInvariantSeletor (Labels pod) \<or>
     (case GetPodTApps E w pod of
        Inl err \<Rightarrow> True
      | Inr [] \<Rightarrow> False
      | Inr (tapp # tapps) \<Rightarrow> instanceKilled E pod tapp)"

subsection \<open>A reference environment\<close>

text \<open>
  Modelled from the spec: the IPAM of package \<^verbatim>\<open>floatingip\<close>, which this file calls and
  does not define, as sections 4.1 and 4.2 of the specification describe it. The store is
  a table of allocation records in the order of their IPs, a free record has the empty
  key. The table \<open>routes\<close> stands for the containment test of \<^verbatim>\<open>RoutableSubnet\<close>: it
  lists the node addresses each routable subnet contains. A pool definition is an IP with
  its routable subnet. The specification does not say what \<^verbatim>\<open>AllocateInSubnet\<close> does with
  a nil subnet; the reference refuses it with an error. The concrete inputs of this theory
  run in this environment.
\<close>

record Allocation =
  alloc_ip :: IP
  alloc_subnet :: string
  alloc_key :: string

record SpecIPAM =
  table :: "Allocation list"
  routes :: "(IP \<times> string) list"

definition spec_info :: "Allocation \<Rightarrow> IPInfo" where
  "spec_info a = \<lparr>info_IP = alloc_ip a, info_Mask = 29, info_Vlan = 0,
                   info_Gateway = ''10.0.0.6'', info_RoutableSubnet = alloc_subnet a\<rparr>"

definition spec_QueryFirst :: "SpecIPAM \<Rightarrow> string \<Rightarrow> error + IPInfo option" where
  "spec_QueryFirst i key =
     (case filter (\<lambda>a. alloc_key a = key) (table i) of
        [] \<Rightarrow> Inr None
      | a # as \<Rightarrow> Inr (Some (spec_info a)))"

definition spec_QueryRoutableSubnetByKey :: "SpecIPAM \<Rightarrow> string \<Rightarrow> error + string list" where
  "spec_QueryRoutableSubnetByKey i key =
     Inr (remdups (map alloc_subnet (filter (\<lambda>a. alloc_key a = key) (table i))))"

definition spec_RoutableSubnet :: "SpecIPAM \<Rightarrow> IP \<Rightarrow> IPNet option" where
  "spec_RoutableSubnet i ip = map_option IPNet (map_of (routes i) ip)"

fun claimOneInSubnet :: "string \<Rightarrow> string \<Rightarrow> Allocation list \<Rightarrow> (IP \<times> Allocation list) option" where
  "claimOneInSubnet key subnet [] = None"
| "claimOneInSubnet key subnet (a # as) =
     (if alloc_subnet a = subnet \<and> alloc_key a = []
      then Some (alloc_ip a, a\<lparr>alloc_key := key\<rparr> # as)
      else map_option (\<lambda>(ip, as'). (ip, a # as')) (claimOneInSubnet key subnet as))"

definition spec_AllocateInSubnet ::
  "string \<Rightarrow> IPNet option \<Rightarrow> SpecIPAM \<Rightarrow> (error + IP) \<times> SpecIPAM" where
  "spec_AllocateInSubnet key subnet i =
     (case subnet of
        None \<Rightarrow> (Inl (Msg ''nil subnet''), i)
      | Some ipNet \<Rightarrow>
          if filter (\<lambda>a. alloc_key a = key) (table i) \<noteq> []
          then (Inl (Msg ''ErrAlreadyAllocated''), i)
          else (case claimOneInSubnet key (IPNet_String ipNet) (table i) of
                  None \<Rightarrow> (Inl (Msg ''ErrNoEnoughIP''), i)
                | Some (ip, t) \<Rightarrow> (Inr ip, i\<lparr>table := t\<rparr>)))"

definition spec_Release :: "string list \<Rightarrow> SpecIPAM \<Rightarrow> error option \<times> SpecIPAM" where
  "spec_Release keys i =
     (None, i\<lparr>table := map (\<lambda>a. if alloc_key a \<in> set keys then a\<lparr>alloc_key := []\<rparr> else a)
                            (table i)\<rparr>)"

definition spec_ConfigurePool ::
  "(IP \<times> string) list \<Rightarrow> SpecIPAM \<Rightarrow> error option \<times> SpecIPAM" where
  "spec_ConfigurePool defs i =
     (if \<not> distinct (map fst defs) then (Some (Msg ''ConfigError''), i)
      else (None,
            i\<lparr>table :=
                 filter (\<lambda>a. alloc_key a \<noteq> [] \<or> alloc_ip a \<in> set (map fst defs)) (table i)
                 @ map (\<lambda>(ip, subnet). \<lparr>alloc_ip = ip, alloc_subnet = subnet, alloc_key = []\<rparr>)
                     (filter (\<lambda>d. fst d \<notin> set (map alloc_ip (table i))) defs)\<rparr>))"

text \<open>
  The orchestrator of the reference environment answers from fixed data: its nodes, the
  data of the one configmap (if it exists), whether it rejects patches, and what the TApp
  lister returns.
\<close>

record SpecWorld =
  world_nodes :: "Node list"
  world_configmap :: "(string \<times> string) list option"
  world_rejects_patch :: bool
  world_tapps :: "error + TApp list"

definition spec_Nodes_Get :: "string \<Rightarrow> SpecWorld \<Rightarrow> (error + Node) \<times> SpecWorld" where
  "spec_Nodes_Get nodeName w =
     (case find (\<lambda>n. Name n = nodeName) (world_nodes w) of
        None \<Rightarrow> (Inl (Msg ''node not found''), w)
      | Some n \<Rightarrow> (Inr n, w))"

definition spec_ConfigMaps_Get ::
  "string \<Rightarrow> string \<Rightarrow> SpecWorld \<Rightarrow> (error + (string \<rightharpoonup> string)) \<times> SpecWorld" where
  "spec_ConfigMaps_Get ns name w =
     (case world_configmap w of
        None \<Rightarrow> (Inl (Msg ''configmap not found''), w)
      | Some d \<Rightarrow> (Inr (map_of d), w))"

definition spec_Pods_Patch ::
  "string \<Rightarrow> string \<Rightarrow> string \<Rightarrow> SpecWorld \<Rightarrow> error option \<times> SpecWorld" where
  "spec_Pods_Patch ns name patchData w =
     (if world_rejects_patch w then (Some (Msg ''patch rejected''), w) else (None, w))"

text \<open>Lower case of the ASCII letters, every other byte as it is.\<close>

definition ascii_lower :: "char \<Rightarrow> char" where
  "ascii_lower c =
     (let n = (of_char c :: nat) in if 65 \<le> n \<and> n \<le> 90 then char_of (n + 32) else c)"

text \<open>
  The pool documents the reference environment can parse: the text \<open>pool-a\<close> defines three
  addresses of one subnet, \<open>pool-overlap\<close> is well-formed and defines one address twice.
\<close>

definition spec_Unmarshal :: "string \<Rightarrow> error + (IP \<times> string) list" where
  "spec_Unmarshal val =
     (if val = ''pool-a''
      then Inr [(''10.0.0.1'', ''10.0.0.0/29''), (''10.0.0.2'', ''10.0.0.0/29''),
                (''10.0.0.3'', ''10.0.0.0/29'')]
      else if val = ''pool-overlap''
      then Inr [(''10.0.0.1'', ''10.0.0.0/29''), (''10.0.0.1'', ''10.0.0.0/29'')]
      else Inl (Msg ''invalid character''))"

definition spec_env :: "(SpecIPAM, SpecWorld, IP \<times> string, unit) env" where
  "spec_env =
     \<lparr>ConfigurePool = spec_ConfigurePool,
      RoutableSubnet = spec_RoutableSubnet,
      QueryRoutableSubnetByKey = spec_QueryRoutableSubnetByKey,
      AllocateInSubnet = spec_AllocateInSubnet,
      QueryFirst = spec_QueryFirst,
      Release = spec_Release,
      ConfigMaps_Get = spec_ConfigMaps_Get,
      Nodes_Get = spec_Nodes_Get,
      Pods_Patch = spec_Pods_Patch,
      GetPodTApps = (\<lambda>w pod. world_tapps w),
      ParseIP = (\<lambda>s. if s = [] then None else Some s),
      ToLower = map ascii_lower,
      Marshal_IPInfo = (\<lambda>info. Inr (''{ip:'' @ info_IP info @ ''}'')),
      Marshal_Annotations = (\<lambda>bind. Inr (concat (map (\<lambda>(k, v). k @ ''='' @ v) bind))),
      Unmarshal_FloatingIPs = spec_Unmarshal,
      keyInDB = (\<lambda>pod. Namespace pod @ ''_'' @ Name pod),
      fmtKey = (\<lambda>name ns. ns @ ''_'' @ name),
      db_Run = (\<lambda>d. Inr \<lparr>table = [], routes = [(''10.0.0.254'', ''10.0.0.0/29'')]\<rparr>),
      nodeTicks = 2,
      patchTicks = 2\<rparr>"

text \<open>
  The first scenario of the specification: the pool 10.0.0.1 to 10.0.0.3 in the subnet
  10.0.0.0/29, all free, and the node \<open>n1\<close> with the internal address 10.0.0.254.
\<close>

definition ipam1 :: SpecIPAM where
  "ipam1 =
     \<lparr>table = [\<lparr>alloc_ip = ''10.0.0.1'', alloc_subnet = ''10.0.0.0/29'', alloc_key = []\<rparr>,
               \<lparr>alloc_ip = ''10.0.0.2'', alloc_subnet = ''10.0.0.0/29'', alloc_key = []\<rparr>,
               \<lparr>alloc_ip = ''10.0.0.3'', alloc_subnet = ''10.0.0.0/29'', alloc_key = []\<rparr>],
      routes = [(''10.0.0.254'', ''10.0.0.0/29'')]\<rparr>"

definition n1 :: Node where
  "n1 = \<lparr>Name = ''n1'', Namespace = [], Labels = Some [''network'' \<mapsto> ''floatingip''],
         Annotations = None,
         Addresses = [\<lparr>Type = ''Hostname'', Address = ''n1''\<rparr>,
                      \<lparr>Type = ''InternalIP'', Address = ''10.0.0.254''\<rparr>]\<rparr>"

text \<open>\<open>n2\<close> carries the node label and has no internal address; \<open>n3\<close> has no label.\<close>

definition n2 :: Node where
  "n2 = \<lparr>Name = ''n2'', Namespace = [], Labels = Some [''network'' \<mapsto> ''floatingip''],
         Annotations = None, Addresses = [\<lparr>Type = ''Hostname'', Address = ''n2''\<rparr>]\<rparr>"

definition n3 :: Node where
  "n3 = \<lparr>Name = ''n3'', Namespace = [], Labels = None, Annotations = None,
         Addresses = [\<lparr>Type = ''InternalIP'', Address = ''10.0.0.253''\<rparr>]\<rparr>"

definition world1 :: SpecWorld where
  "world1 = \<lparr>world_nodes = [n1, n2, n3], world_configmap = Some [(''floatingips'', ''pool-a'')],
             world_rejects_patch = False, world_tapps = Inr []\<rparr>"

definition conf1 :: "(IP \<times> string, unit) Conf" where
  "conf1 = \<lparr>FloatingIPs = [], DBConfig = (), ResyncInterval = 1,
            ConfigMapName = ''floatingip-config'', ConfigMapNamespace = ''kube-system''\<rparr>"

definition plugin1 :: "(SpecIPAM, SpecWorld, IP \<times> string, unit) FloatingIPPlugin" where
  "plugin1 = \<lparr>ipam = ipam1, nodeSubnet = Map.empty, Client = world1, lastFIPConf = [],
              conf = conf1, unreleased = [], calls = []\<rparr>"

definition pod1 :: Pod where
  "pod1 = \<lparr>Name = ''p1'', Namespace = ''ns'', Labels = Some [''network'' \<mapsto> ''FLOATINGIP''],
         Annotations = None, Phase = ''Running'', Reason = []\<rparr>"

text \<open>The same pod without labels, evicted; and a pod of a TApp under the invariant policy.\<close>

definition p_nil :: Pod where
  "p_nil = \<lparr>Name = ''p0'', Namespace = ''ns'', Labels = None, Annotations = None,
            Phase = ''Failed'', Reason = ''Evicted''\<rparr>"

definition p_empty :: Pod where
  "p_empty = \<lparr>Name = ''p0'', Namespace = ''ns'', Labels = Some Map.empty, Annotations = None,
              Phase = ''Failed'', Reason = ''Evicted''\<rparr>"

definition p_inv :: Pod where
  "p_inv = \<lparr>Name = ''app-0'', Namespace = ''ns'',
            Labels = Some [''network'' \<mapsto> ''FLOATINGIP'', ''floatingip'' \<mapsto> ''invariant'',
                           ''tapp_instance_key'' \<mapsto> ''0''],
            Annotations = None, Phase = ''Running'', Reason = []\<rparr>"

definition args1 :: ExtenderBindingArgs where
  "args1 = \<lparr>PodName = ''p1'', PodNamespace = ''ns'', PodUID = ''uid-1'', BindNode = ''n1''\<rparr>"

text \<open>The pool after \<open>ns_app-0\<close> has claimed 10.0.0.1.\<close>

definition ipam2 :: SpecIPAM where
  "ipam2 =
     \<lparr>table = [\<lparr>alloc_ip = ''10.0.0.1'', alloc_subnet = ''10.0.0.0/29'', alloc_key = ''ns_app-0''\<rparr>,
               \<lparr>alloc_ip = ''10.0.0.2'', alloc_subnet = ''10.0.0.0/29'', alloc_key = []\<rparr>,
               \<lparr>alloc_ip = ''10.0.0.3'', alloc_subnet = ''10.0.0.0/29'', alloc_key = []\<rparr>],
      routes = [(''10.0.0.254'', ''10.0.0.0/29'')]\<rparr>"

text \<open>A bind to the node without an internal address, and one to the node outside every pool.\<close>

definition args2 :: ExtenderBindingArgs where
  "args2 = \<lparr>PodName = ''p1'', PodNamespace = ''ns'', PodUID = ''uid-1'', BindNode = ''n2''\<rparr>"

definition args3 :: ExtenderBindingArgs where
  "args3 = \<lparr>PodName = ''p1'', PodNamespace = ''ns'', PodUID = ''uid-1'', BindNode = ''n3''\<rparr>"

text \<open>The first scenario with an orchestrator that rejects every patch.\<close>

definition plugin_rejecting :: "(SpecIPAM, SpecWorld, IP \<times> string, unit) FloatingIPPlugin" where
  "plugin_rejecting = plugin1\<lparr>Client := world1\<lparr>world_rejects_patch := True\<rparr>\<rparr>"

text \<open>
  The pod \<open>app-0\<close> holds 10.0.0.1; its TApp reports instance 0 as killed in one world and
  as running in the other.
\<close>

definition plugin_killed :: "(SpecIPAM, SpecWorld, IP \<times> string, unit) FloatingIPPlugin" where
  "plugin_killed =
     plugin1\<lparr>ipam := ipam2,
             Client := world1\<lparr>world_tapps :=
                         Inr [\<lparr>Statuses = [(''1'', ''Running''), (''0'', ''Killed'')]\<rparr>]\<rparr>\<rparr>"

definition plugin_running :: "(SpecIPAM, SpecWorld, IP \<times> string, unit) FloatingIPPlugin" where
  "plugin_running =
     plugin1\<lparr>ipam := ipam2,
             Client := world1\<lparr>world_tapps :=
                         Inr [\<lparr>Statuses = [(''1'', ''Killed''), (''0'', ''Running'')]\<rparr>]\<rparr>\<rparr>"

text \<open>An orchestrator whose configmap holds the pool document that defines an address twice.\<close>

definition world_overlap :: SpecWorld where
  "world_overlap = world1\<lparr>world_configmap := Some [(''floatingips'', ''pool-overlap'')]\<rparr>"

definition plugin_overlap :: "(SpecIPAM, SpecWorld, IP \<times> string, unit) FloatingIPPlugin" where
  "plugin_overlap = plugin1\<lparr>Client := world_overlap\<rparr>"

definition overlap_defs :: "(IP \<times> string) list" where
  "overlap_defs = [(''10.0.0.1'', ''10.0.0.0/29''), (''10.0.0.1'', ''10.0.0.0/29'')]"

text \<open>The plugin after the pod \<open>ns_p1\<close> has been allocated 10.0.0.1 through the node \<open>n1\<close>.\<close>

definition ipam3 :: SpecIPAM where
  "ipam3 =
     \<lparr>table = [\<lparr>alloc_ip = ''10.0.0.1'', alloc_subnet = ''10.0.0.0/29'', alloc_key = ''ns_p1''\<rparr>,
               \<lparr>alloc_ip = ''10.0.0.2'', alloc_subnet = ''10.0.0.0/29'', alloc_key = []\<rparr>,
               \<lparr>alloc_ip = ''10.0.0.3'', alloc_subnet = ''10.0.0.0/29'', alloc_key = []\<rparr>],
      routes = [(''10.0.0.254'', ''10.0.0.0/29'')]\<rparr>"

definition bind1 :: "(string \<times> string) list" where
  "bind1 = [(''floatingip'', ''{ip:10.0.0.1}'')]"

definition allocated1 :: "(IP \<times> string) call list" where
  "allocated1 = [Client_Nodes_Get ''n1'',
                 IPAM_AllocateInSubnet ''ns_p1'' (Some (IPNet ''10.0.0.0/29''))]"

section \<open>Properties\<close>

lemmas env_simps = spec_env_def spec_QueryFirst_def spec_QueryRoutableSubnetByKey_def
  spec_RoutableSubnet_def spec_AllocateInSubnet_def spec_Release_def spec_ConfigurePool_def
  spec_Nodes_Get_def spec_ConfigMaps_Get_def spec_Pods_Patch_def spec_Unmarshal_def
  spec_info_def

lemmas node_simps = Matches_def nodeSelector_def getNodeSubnet_def subnetOfNode_def
  getNodeIP_def NodeInternalIP_def n1_def n2_def n3_def

subsection \<open>Filter\<close>

text \<open>The loop appends the accepted nodes in order and overrides the map name by name.\<close>

lemma Filter_range_fst:
  "fst (Filter_range E p subnets nodes (acc, failed)) = acc @ filter (accepted E p subnets) nodes"
  by (induction nodes arbitrary: acc failed) (auto simp: accepted_def split: sum.splits)

lemma Filter_range_snd:
  "snd (Filter_range E p subnets nodes (acc, failed)) =
     failed ++ map_of (rev (map (\<lambda>n. (Name n, rejection E p n))
                            (filter (\<lambda>n. \<not> accepted E p subnets n) nodes)))"
  by (induction nodes arbitrary: acc failed)
     (auto simp: accepted_def rejection_def map_add_upd_left split: sum.splits)

lemma Filter_range_eq:
  "Filter_range E p subnets nodes ([], Map.empty) =
     (filter (accepted E p subnets) nodes,
      map_of (rev (map (\<lambda>n. (Name n, rejection E p n))
                       (filter (\<lambda>n. \<not> accepted E p subnets n) nodes))))"
  using Filter_range_fst [of E p subnets nodes "[]" Map.empty]
        Filter_range_snd [of E p subnets nodes "[]" Map.empty]
  by (cases "Filter_range E p subnets nodes ([], Map.empty)") simp

lemma wantedObject_iff: "wantedObject pod \<longleftrightarrow> Matches objectSelector (Labels pod)"
  by (cases "Labels pod") (simp_all add: wantedObject_def Matches_def objectSelector_def)

lemma Filter_eq:
  assumes "wantedObject pod" and "subnetsForKey E p (keyInDB E pod) = Some subnets"
  shows "Filter E p pod nodes =
     (filter (accepted E p subnets) nodes,
      map_of (rev (map (\<lambda>n. (Name n, rejection E p n))
                       (filter (\<lambda>n. \<not> accepted E p subnets n) nodes))),
      None)"
  using assms
  by (auto simp: Filter_def subnetsForKey_def Filter_range_eq Let_def
           split: sum.splits if_splits)

text \<open>
  C1. For a pod the object selector matches, when the subnet queries answer, \<open>Filter\<close>
  returns no error and accepts, in their order, exactly the candidate nodes that match the
  node selector and whose subnet is among the subnets queried for the pod's key (those
  where the key owns an IP, or else those with a free IP). The names of the failed map
  are the names of the other candidates, and each is mapped to the reason of a rejected
  candidate of that name (\<open>UnlabelNode\<close>, the error of the subnet lookup, or \<open>NoFIPLeft\<close>):
  to its own reason when the names of the candidates are distinct.
\<close>

theorem Filter_accepts_exactly:
  assumes "Matches objectSelector (Labels pod)"
      and "subnetsForKey E p (keyInDB E pod) = Some subnets"
  shows "\<exists>failedNodes.
           Filter E p pod nodes = (filter (accepted E p subnets) nodes, failedNodes, None)
         \<and> dom failedNodes = Name ` {n \<in> set nodes. \<not> accepted E p subnets n}
         \<and> (\<forall>n \<in> set nodes. \<not> accepted E p subnets n \<longrightarrow>
               (\<exists>m \<in> set nodes. Name m = Name n \<and> \<not> accepted E p subnets m
                    \<and> failedNodes (Name n) = Some (rejection E p m)))
         \<and> (distinct (map Name nodes) \<longrightarrow>
               (\<forall>n \<in> set nodes. \<not> accepted E p subnets n \<longrightarrow>
                    failedNodes (Name n) = Some (rejection E p n)))"
proof -
  define rejected where "rejected = filter (\<lambda>n. \<not> accepted E p subnets n) nodes"
  define entries where "entries = rev (map (\<lambda>n. (Name n, rejection E p n)) rejected)"
  have eq: "Filter E p pod nodes = (filter (accepted E p subnets) nodes, map_of entries, None)"
    using Filter_eq [of pod E p subnets nodes] assms
    by (simp add: wantedObject_iff entries_def rejected_def)
  have keys: "fst ` set entries = Name ` {n \<in> set nodes. \<not> accepted E p subnets n}"
    by (force simp: entries_def rejected_def)
  have d: "dom (map_of entries) = Name ` {n \<in> set nodes. \<not> accepted E p subnets n}"
    using keys by (simp add: dom_map_of_conv_image_fst)
  have some: "\<exists>m \<in> set nodes. Name m = Name n \<and> \<not> accepted E p subnets m
                 \<and> map_of entries (Name n) = Some (rejection E p m)"
    if n: "n \<in> set nodes" "\<not> accepted E p subnets n" for n
  proof -
    from n have "Name n \<in> dom (map_of entries)" using d by blast
    then obtain v where v: "map_of entries (Name n) = Some v" by blast
    then have "(Name n, v) \<in> set entries" by (rule map_of_SomeD)
    then obtain m where "m \<in> set rejected" "Name m = Name n" "v = rejection E p m"
      by (auto simp: entries_def)
    with v show ?thesis by (auto simp: rejected_def)
  qed
  have exact: "map_of entries (Name n) = Some (rejection E p n)"
    if dist: "distinct (map Name nodes)" and n: "n \<in> set nodes" "\<not> accepted E p subnets n" for n
  proof -
    have "distinct (map Name rejected)"
      using dist unfolding rejected_def by (rule distinct_map_filter)
    then have "distinct (map fst entries)"
      by (simp add: entries_def rev_map [symmetric] comp_def)
    moreover have "(Name n, rejection E p n) \<in> set entries"
      using n by (auto simp: entries_def rejected_def)
    ultimately show ?thesis by (rule map_of_is_SomeI)
  qed
  from eq d some exact show ?thesis by blast
qed

lemma plugin1_subnets:
  "subnetsForKey spec_env plugin1 (keyInDB spec_env pod1) = Some [''10.0.0.0/29'']"
  by (simp add: subnetsForKey_def env_simps plugin1_def ipam1_def pod1_def)

lemma pod1_wanted: "Matches objectSelector (Labels pod1)"
  by (simp add: Matches_def objectSelector_def pod1_def)

lemma accepted1:
  "accepted spec_env plugin1 [''10.0.0.0/29''] n1"
  "\<not> accepted spec_env plugin1 [''10.0.0.0/29''] n2"
  "\<not> accepted spec_env plugin1 [''10.0.0.0/29''] n3"
  by (simp_all add: accepted_def node_simps env_simps plugin1_def ipam1_def)

lemma rejection1:
  "rejection spec_env plugin1 n2 = ''FloatingIPPlugin:UnknowNode''"
  "rejection spec_env plugin1 n3 = ''FloatingIPPlugin:UnlabelNode''"
  by (simp_all add: rejection_def node_simps env_simps plugin1_def ipam1_def)

text \<open>
  In the first scenario the pod \<open>ns_p1\<close> owns nothing, the one subnet has free IPs: of
  the candidates \<open>n1\<close>, \<open>n2\<close>, \<open>n3\<close> the node \<open>n1\<close> is accepted, \<open>n2\<close> fails the
  lookup and \<open>n3\<close> the node selector.
\<close>

theorem Filter_accepts_exactly_witness:
  "Matches objectSelector (Labels pod1)
   \<and> subnetsForKey spec_env plugin1 (keyInDB spec_env pod1) = Some [''10.0.0.0/29'']
   \<and> (\<exists>failedNodes.
         Filter spec_env plugin1 pod1 [n1, n2, n3] = ([n1], failedNodes, None)
       \<and> dom failedNodes = {''n2'', ''n3''}
       \<and> failedNodes ''n2'' = Some ''FloatingIPPlugin:UnknowNode''
       \<and> failedNodes ''n3'' = Some ''FloatingIPPlugin:UnlabelNode'')"
proof -
  have names: "Name n1 = ''n1''" "Name n2 = ''n2''" "Name n3 = ''n3''"
    by (simp_all add: n1_def n2_def n3_def)
  from Filter_accepts_exactly [OF pod1_wanted plugin1_subnets, of "[n1, n2, n3]"]
  obtain failedNodes where
    f: "Filter spec_env plugin1 pod1 [n1, n2, n3] =
          (filter (accepted spec_env plugin1 [''10.0.0.0/29'']) [n1, n2, n3], failedNodes, None)"
    and d: "dom failedNodes =
          Name ` {n \<in> set [n1, n2, n3]. \<not> accepted spec_env plugin1 [''10.0.0.0/29''] n}"
    and e: "distinct (map Name [n1, n2, n3]) \<longrightarrow>
          (\<forall>n \<in> set [n1, n2, n3]. \<not> accepted spec_env plugin1 [''10.0.0.0/29''] n \<longrightarrow>
               failedNodes (Name n) = Some (rejection spec_env plugin1 n))"
    by blast
  have "Filter spec_env plugin1 pod1 [n1, n2, n3] = ([n1], failedNodes, None)"
    using f by (simp add: accepted1)
  moreover have "{n \<in> set [n1, n2, n3]. \<not> accepted spec_env plugin1 [''10.0.0.0/29''] n} = {n2, n3}"
    using accepted1 by auto
  then have "dom failedNodes = {''n2'', ''n3''}"
    using d names by simp
  moreover have "failedNodes ''n2'' = Some ''FloatingIPPlugin:UnknowNode''"
    "failedNodes ''n3'' = Some ''FloatingIPPlugin:UnlabelNode''"
    using e accepted1 rejection1 names by auto
  ultimately show ?thesis using pod1_wanted plugin1_subnets by blast
qed

subsection \<open>Pods without labels\<close>

lemma wantedObject_no_labels:
  "Labels pod = None \<or> Labels pod = Some Map.empty \<Longrightarrow> \<not> wantedObject pod"
  by (auto simp: wantedObject_def Matches_def objectSelector_def)

text \<open>
  C10. A pod whose label map is nil or empty does not want a floating IP: \<open>Filter\<close>
  returns the candidates as they are with an empty failed map and no error, and
  \<open>UpdatePod\<close> and \<open>RemovePod\<close> return nil and leave the plugin, its queue included,
  as it is.
\<close>

theorem no_labels_pass_through:
  assumes "Labels pod = None \<or> Labels pod = Some Map.empty"
  shows "Filter E p pod nodes = (nodes, Map.empty, None)
       \<and> UpdatePod E oldPod pod p = (None, p)
       \<and> RemovePod E pod p = (None, p)"
  using wantedObject_no_labels [OF assms]
  by (simp add: Filter_def UpdatePod_def RemovePod_def)

text \<open>Both kinds of unlabelled pod, evicted, so that a wanted pod would be enqueued.\<close>

theorem no_labels_pass_through_witness:
  "Filter spec_env plugin1 p_nil [n1, n2, n3] = ([n1, n2, n3], Map.empty, None)
   \<and> UpdatePod spec_env pod1 p_nil plugin1 = (None, plugin1)
   \<and> RemovePod spec_env p_nil plugin1 = (None, plugin1)
   \<and> Filter spec_env plugin1 p_empty [n1, n2, n3] = ([n1, n2, n3], Map.empty, None)
   \<and> UpdatePod spec_env pod1 p_empty plugin1 = (None, plugin1)
   \<and> RemovePod spec_env p_empty plugin1 = (None, plugin1)
   \<and> evicted p_nil \<and> evicted p_empty"
  using no_labels_pass_through [of p_nil spec_env plugin1 "[n1, n2, n3]" pod1]
        no_labels_pass_through [of p_empty spec_env plugin1 "[n1, n2, n3]" pod1]
  by (simp add: p_nil_def p_empty_def evicted_def PodFailed_def)

subsection \<open>The release decision\<close>

text \<open>
  A Go map holds every key once, so the order of the \<^verbatim>\<open>range\<close> does not matter: the loop
  releases exactly when the entry of the pod's instance index is killed.
\<close>

lemma unbind_range_eq:
  "distinct (map fst statuses) \<Longrightarrow>
   unbind_range E key pod statuses p =
     (if (case map_of statuses (index (Labels pod) TAppInstanceKey) of
            None \<Rightarrow> False | Some status \<Rightarrow> tappInstanceKilled E status)
      then Some (releasePodIP E key p) else None)"
proof (induction statuses)
  case Nil
  show ?case by simp
next
  case (Cons e statuses)
  obtain i status where e: "e = (i, status)" by (cases e)
  from Cons.prems e have "map_of statuses i = None"
    by (simp add: map_of_eq_None_iff)
  with Cons e show ?case by auto
qed

lemma releasePodIP_owned:
  "QueryFirst E (ipam p) key = Inr (Some ipInfo) \<Longrightarrow>
   snd (releasePodIP E key p)
     = p\<lparr>ipam := snd (Release E [key] (ipam p)), calls := calls p @ [IPAM_Release [key]]\<rparr>"
  by (simp add: releasePodIP_def Let_def split: option.splits)

text \<open>
  C7. \<open>unbind\<close> is the release of the pod's key (\<open>releasePodIP\<close>, which invokes
  \<open>Release\<close> on the key when it owns an IP) when the invariant selector does not match
  the pod, when the TApp lookup fails, and when the status of the first TApp for the pod's
  instance index is killed, compared in lower case. In every other case the plugin is left
  as it is, so nothing is released, and \<open>unbind\<close> returns nil unless the lister returned
  no TApp.
\<close>

theorem unbind_release_decision:
  assumes "key = keyInDB E pod"
      and "\<forall>tapp tapps. GetPodTApps E (Client p) pod = Inr (tapp # tapps) \<longrightarrow>
              distinct (map fst (Statuses tapp))"
  shows "(releases E (Client p) pod \<longrightarrow>
            unbind E pod p = (Returned (fst (releasePodIP E key p)), snd (releasePodIP E key p)))
       \<and> (\<not> releases E (Client p) pod \<longrightarrow>
            snd (unbind E pod p) = p
          \<and> (fst (unbind E pod p) = Returned None \<or> GetPodTApps E (Client p) pod = Inr []))
       \<and> (\<forall>ipInfo. QueryFirst E (ipam p) key = Inr (Some ipInfo) \<longrightarrow>
            snd (releasePodIP E key p)
              = p\<lparr>ipam := snd (Release E [key] (ipam p)),
                  calls := calls p @ [IPAM_Release [key]]\<rparr>)"
proof (intro conjI impI allI)
  assume r: "releases E (Client p) pod"
  show "unbind E pod p = (Returned (fst (releasePodIP E key p)), snd (releasePodIP E key p))"
  proof (cases "Matches fipInvariantSeletor (Labels pod)")
    case False
    with assms(1) show ?thesis by (simp add: unbind_def split: prod.splits)
  next
    case True
    show ?thesis
    proof (cases "GetPodTApps E (Client p) pod")
      case (Inl err)
      with True assms(1) show ?thesis by (simp add: unbind_def split: prod.splits)
    next
      case (Inr tapps)
      with r True obtain tapp rest where t: "tapps = tapp # rest" "instanceKilled E pod tapp"
        by (cases tapps) (auto simp: releases_def)
      from assms(2) Inr t have "distinct (map fst (Statuses tapp))" by simp
      from unbind_range_eq [OF this, of E key pod p] t(2)
      have "unbind_range E key pod (Statuses tapp) p = Some (releasePodIP E key p)"
        by (simp add: instanceKilled_def)
      with True Inr t assms(1) show ?thesis by (simp add: unbind_def split: prod.splits)
    qed
  qed
next
  assume r: "\<not> releases E (Client p) pod"
  then have m: "Matches fipInvariantSeletor (Labels pod)" by (simp add: releases_def)
  have "snd (unbind E pod p) = p
      \<and> (fst (unbind E pod p) = Returned None \<or> GetPodTApps E (Client p) pod = Inr [])"
  proof (cases "GetPodTApps E (Client p) pod")
    case (Inl err)
    with r show ?thesis by (simp add: releases_def)
  next
    case (Inr tapps)
    show ?thesis
    proof (cases tapps)
      case Nil
      with m Inr show ?thesis by (simp add: unbind_def)
    next
      case (Cons tapp rest)
      with r Inr have nk: "\<not> instanceKilled E pod tapp" by (simp add: releases_def)
      from assms(2) Inr Cons have "distinct (map fst (Statuses tapp))" by simp
      from unbind_range_eq [OF this, of E key pod p] nk
      have "unbind_range E key pod (Statuses tapp) p = None"
        by (simp add: instanceKilled_def)
      with m Inr Cons assms(1) show ?thesis by (simp add: unbind_def)
    qed
  qed
  then show "snd (unbind E pod p) = p"
    and "fst (unbind E pod p) = Returned None \<or> GetPodTApps E (Client p) pod = Inr []"
    by simp_all
next
  fix ipInfo assume "QueryFirst E (ipam p) key = Inr (Some ipInfo)"
  then show "snd (releasePodIP E key p)
              = p\<lparr>ipam := snd (Release E [key] (ipam p)),
                  calls := calls p @ [IPAM_Release [key]]\<rparr>"
    by (rule releasePodIP_owned)
qed

lemma p_inv_facts:
  "keyInDB spec_env p_inv = ''ns_app-0''"
  "Matches fipInvariantSeletor (Labels p_inv)"
  "index (Labels p_inv) TAppInstanceKey = ''0''"
  by (simp_all add: spec_env_def p_inv_def Matches_def fipInvariantSeletor_def index_def
        TAppInstanceKey_def)

lemma spec_env_sel:
  "GetPodTApps spec_env = (\<lambda>w pod. world_tapps w)"
  "ToLower spec_env = map ascii_lower"
  by (simp_all add: spec_env_def)

lemma lower_facts:
  "map ascii_lower ''Killed'' = ''killed''"
  "map ascii_lower ''killed'' = ''killed''"
  "map ascii_lower ''Running'' = ''running''"
  by code_simp+

lemma killed_facts:
  "tappInstanceKilled spec_env ''Killed''" "\<not> tappInstanceKilled spec_env ''Running''"
  unfolding tappInstanceKilled_def spec_env_sel INSTANCE_KILLED_def lower_facts by simp_all

lemma releases_facts:
  "releases spec_env (Client plugin_killed) p_inv"
  "\<not> releases spec_env (Client plugin_running) p_inv"
  by (simp_all add: releases_def instanceKilled_def p_inv_facts killed_facts
        plugin_killed_def plugin_running_def spec_env_sel)

text \<open>
  The pod \<open>app-0\<close> under the invariant policy holds 10.0.0.1: it is released when its
  TApp reports instance 0 as \<open>Killed\<close> and kept when it reports it as \<open>Running\<close>.
\<close>

theorem unbind_release_decision_witness:
  "releases spec_env (Client plugin_killed) p_inv
   \<and> calls (snd (unbind spec_env p_inv plugin_killed)) = [IPAM_Release [''ns_app-0'']]
   \<and> QueryFirst spec_env (ipam (snd (unbind spec_env p_inv plugin_killed))) ''ns_app-0'' = Inr None
   \<and> fst (unbind spec_env p_inv plugin_killed) = Returned None
   \<and> \<not> releases spec_env (Client plugin_running) p_inv
   \<and> unbind spec_env p_inv plugin_running = (Returned None, plugin_running)
   \<and> (\<exists>ipInfo. QueryFirst spec_env (ipam plugin_running) ''ns_app-0'' = Inr (Some ipInfo))"
proof -
  have k: "''ns_app-0'' = keyInDB spec_env p_inv" by (simp add: p_inv_facts)
  have dk: "\<forall>tapp tapps. GetPodTApps spec_env (Client plugin_killed) p_inv = Inr (tapp # tapps)
              \<longrightarrow> distinct (map fst (Statuses tapp))"
    by (auto simp: spec_env_def plugin_killed_def)
  have dr: "\<forall>tapp tapps. GetPodTApps spec_env (Client plugin_running) p_inv = Inr (tapp # tapps)
              \<longrightarrow> distinct (map fst (Statuses tapp))"
    by (auto simp: spec_env_def plugin_running_def)
  have q: "QueryFirst spec_env (ipam plugin_killed) ''ns_app-0''
             = Inr (Some (spec_info \<lparr>alloc_ip = ''10.0.0.1'', alloc_subnet = ''10.0.0.0/29'',
                                     alloc_key = ''ns_app-0''\<rparr>))"
    "QueryFirst spec_env (ipam plugin_running) ''ns_app-0''
             = Inr (Some (spec_info \<lparr>alloc_ip = ''10.0.0.1'', alloc_subnet = ''10.0.0.0/29'',
                                     alloc_key = ''ns_app-0''\<rparr>))"
    by (simp_all add: spec_env_def spec_QueryFirst_def plugin_killed_def plugin_running_def ipam2_def)
  note K = unbind_release_decision [OF k dk]
  note R = unbind_release_decision [OF k dr]
  from K releases_facts(1)
  have u: "unbind spec_env p_inv plugin_killed
             = (Returned (fst (releasePodIP spec_env ''ns_app-0'' plugin_killed)),
                snd (releasePodIP spec_env ''ns_app-0'' plugin_killed))"
    by blast
  from K q(1)
  have s: "snd (releasePodIP spec_env ''ns_app-0'' plugin_killed)
             = plugin_killed\<lparr>ipam := snd (Release spec_env [''ns_app-0''] (ipam plugin_killed)),
                            calls := calls plugin_killed @ [IPAM_Release [''ns_app-0'']]\<rparr>"
    by blast
  have f: "fst (releasePodIP spec_env ''ns_app-0'' plugin_killed) = None"
    using q(1) by (simp add: releasePodIP_def Let_def spec_env_def spec_Release_def)
  have c: "calls plugin_killed = []" by (simp add: plugin_killed_def plugin1_def)
  have i: "QueryFirst spec_env (snd (Release spec_env [''ns_app-0''] (ipam plugin_killed))) ''ns_app-0''
             = Inr None"
    by (simp add: env_simps plugin_killed_def ipam2_def)
  from R releases_facts(2)
  have "snd (unbind spec_env p_inv plugin_running) = plugin_running"
    "fst (unbind spec_env p_inv plugin_running) = Returned None
     \<or> GetPodTApps spec_env (Client plugin_running) p_inv = Inr []"
    by blast+
  moreover have "GetPodTApps spec_env (Client plugin_running) p_inv \<noteq> Inr []"
    by (simp add: spec_env_def plugin_running_def)
  ultimately have r: "unbind spec_env p_inv plugin_running = (Returned None, plugin_running)"
    by (cases "unbind spec_env p_inv plugin_running") simp
  from u s f c i r q(2) releases_facts show ?thesis by simp
qed

text \<open>
  C9. For a pod the invariant selector matches, when the TApp lister returns the empty
  list and no error, \<open>unbind\<close> indexes the list out of range: it panics, and neither
  releases nor changes anything.
\<close>

theorem unbind_no_tapp_panics:
  assumes "Matches fipInvariantSeletor (Labels pod)"
      and "GetPodTApps E (Client p) pod = Inr []"
  shows "unbind E pod p = (Panic ''runtime error: index out of range'', p)"
  using assms by (simp add: unbind_def)

theorem unbind_no_tapp_panics_witness:
  "Matches fipInvariantSeletor (Labels p_inv)
   \<and> GetPodTApps spec_env (Client plugin1) p_inv = Inr []
   \<and> unbind spec_env p_inv plugin1 = (Panic ''runtime error: index out of range'', plugin1)"
proof -
  have m: "Matches fipInvariantSeletor (Labels p_inv)"
    by (simp add: Matches_def fipInvariantSeletor_def p_inv_def)
  have t: "GetPodTApps spec_env (Client plugin1) p_inv = Inr []"
    by (simp add: spec_env_def plugin1_def world1_def)
  from unbind_no_tapp_panics [OF m t] m t show ?thesis by simp
qed

subsection \<open>Bind\<close>

lemma Patch_condition_keeps:
  "ipam (snd (Patch_condition E args d p)) = ipam p"
  "calls (snd (Patch_condition E args d p)) = calls p @ [Client_Pods_Patch (PodNamespace args) (PodName args) d]"
  "snd (fst (Patch_condition E args d p)) = None"
  by (simp_all add: Patch_condition_def Let_def split: option.splits)

lemma WaitFor_Patch_keeps:
  "ipam (snd (WaitFor n (Patch_condition E args d) p)) = ipam p
   \<and> filter is_IPAM_call (calls (snd (WaitFor n (Patch_condition E args d) p)))
       = filter is_IPAM_call (calls p)"
proof (induction n arbitrary: p)
  case 0
  show ?case
    using Patch_condition_keeps [of E args d p]
    by (cases "Patch_condition E args d p") (auto split: option.splits)
next
  case (Suc n)
  show ?case
    using Patch_condition_keeps [of E args d p] Suc.IH [of "snd (Patch_condition E args d p)"]
    by (cases "Patch_condition E args d p") (auto split: option.splits)
qed

lemma Bind_patch_keeps:
  "ipam (snd (Bind_patch E args key bind p)) = ipam p
   \<and> filter is_IPAM_call (calls (snd (Bind_patch E args key bind p)))
       = filter is_IPAM_call (calls p)"
proof -
  define d where "d = (case Marshal_Annotations E bind of Inl err \<Rightarrow> [] | Inr d \<Rightarrow> d)"
  show ?thesis
    using Patch_condition_keeps [of E args d p]
          WaitFor_Patch_keeps [of "patchTicks E" E args d "snd (Patch_condition E args d p)"]
    by (cases "Patch_condition E args d p")
       (auto simp: Bind_patch_def PollImmediate_def d_def [symmetric] Let_def
             split: option.splits prod.splits)
qed

lemma allocateIP_reuse:
  "QueryFirst E (ipam p) key = Inr (Some ipInfo) \<Longrightarrow>
   allocateIP E key nodeName p = (marshalBind E ipInfo, p)"
  by (simp add: allocateIP_def)

lemma marshalBind_not_nil: "marshalBind E ipInfo \<noteq> Inr None"
  by (simp add: marshalBind_def split: sum.splits)

lemma allocateIP_success:
  assumes "allocateIP E key nodeName p = (Inr (Some bind), p')"
  shows "\<exists>ipInfo. QueryFirst E (ipam p') key = Inr (Some ipInfo)
                 \<and> marshalBind E ipInfo = Inr (Some bind)"
  using assms
  by (auto simp: allocateIP_def Let_def split: sum.splits option.splits prod.splits)


lemma Bind_eq_Bind_patch:
  assumes "allocateIP E (fmtKey E (PodName args) (PodNamespace args)) (BindNode args) p
             = (Inr (Some bind), p')"
  shows "Bind E args p = Bind_patch E args (fmtKey E (PodName args) (PodNamespace args)) bind p'"
  using assms by (simp add: Bind_def)

text \<open>
  C2. \<open>Bind\<close> is idempotent per owner key. When the IPAM already holds a record for the
  key, the allocation step returns that record's annotation and leaves the plugin as it
  is, and the whole \<open>Bind\<close> invokes no IPAM operation and leaves the IPAM unchanged.
  Hence, once the allocation step of one \<open>Bind\<close> has produced an annotation, any later
  \<open>Bind\<close> of the same key that starts from the IPAM the first one left (whatever the node
  and the state of the orchestrator) finds the first one's record: it produces the same
  annotation, so the same IP, allocates nothing and only patches.
\<close>

theorem Bind_idempotent_per_key:
  assumes "key = fmtKey E (PodName args) (PodNamespace args)"
  shows "(QueryFirst E (ipam p) key = Inr (Some ipInfo) \<longrightarrow>
            allocateIP E key (BindNode args) p = (marshalBind E ipInfo, p)
          \<and> ipam (snd (Bind E args p)) = ipam p
          \<and> filter is_IPAM_call (calls (snd (Bind E args p))) = filter is_IPAM_call (calls p))
       \<and> (allocateIP E key (BindNode args) p = (Inr (Some bind), p')
          \<and> fmtKey E (PodName args') (PodNamespace args') = key \<and> ipam q = ipam p' \<longrightarrow>
            allocateIP E key (BindNode args') q = (Inr (Some bind), q)
          \<and> Bind E args' q = Bind_patch E args' key bind q
          \<and> ipam (snd (Bind E args' q)) = ipam p'
          \<and> filter is_IPAM_call (calls (snd (Bind E args' q))) = filter is_IPAM_call (calls q))"
proof (intro conjI impI)
  assume q: "QueryFirst E (ipam p) key = Inr (Some ipInfo)"
  then show a: "allocateIP E key (BindNode args) p = (marshalBind E ipInfo, p)"
    by (rule allocateIP_reuse)
  have "ipam (snd (Bind E args p)) = ipam p
      \<and> filter is_IPAM_call (calls (snd (Bind E args p))) = filter is_IPAM_call (calls p)"
  proof (cases "marshalBind E ipInfo")
    case (Inl err)
    with a assms show ?thesis by (simp add: Bind_def)
  next
    case (Inr b)
    with marshalBind_not_nil [of E ipInfo] obtain bind' where "b = Some bind'" by (cases b) auto
    with a assms Inr Bind_patch_keeps [of E args key bind' p] show ?thesis
      by (simp add: Bind_def)
  qed
  then show "ipam (snd (Bind E args p)) = ipam p"
    and "filter is_IPAM_call (calls (snd (Bind E args p))) = filter is_IPAM_call (calls p)"
    by simp_all
next
  assume h: "allocateIP E key (BindNode args) p = (Inr (Some bind), p')
     \<and> fmtKey E (PodName args') (PodNamespace args') = key \<and> ipam q = ipam p'"
  then obtain ipInfo' where i: "QueryFirst E (ipam q) key = Inr (Some ipInfo')"
      "marshalBind E ipInfo' = Inr (Some bind)"
    using allocateIP_success [of E key "BindNode args" p bind p'] by auto
  then show a: "allocateIP E key (BindNode args') q = (Inr (Some bind), q)"
    using allocateIP_reuse [of E q key ipInfo' "BindNode args'"] by simp
  with h show b: "Bind E args' q = Bind_patch E args' key bind q"
    by (simp add: Bind_def)
  from b h Bind_patch_keeps [of E args' key bind q]
  show "ipam (snd (Bind E args' q)) = ipam p'"
    and "filter is_IPAM_call (calls (snd (Bind E args' q))) = filter is_IPAM_call (calls q)"
    by simp_all
qed

text \<open>A poll whose every patch is rejected runs to its timeout.\<close>

lemma Patch_condition_rejected:
  assumes "Client p \<in> W"
      and "\<forall>w \<in> W. fst (Pods_Patch E (PodNamespace args) (PodName args) d w) \<noteq> None
                   \<and> snd (Pods_Patch E (PodNamespace args) (PodName args) d w) \<in> W"
  shows "fst (Patch_condition E args d p) = (False, None)"
    and "Client (snd (Patch_condition E args d p)) \<in> W"
    and "calls (snd (Patch_condition E args d p))
           = calls p @ [Client_Pods_Patch (PodNamespace args) (PodName args) d]"
proof -
  from assms obtain e where
    "fst (Pods_Patch E (PodNamespace args) (PodName args) d (Client p)) = Some e"
    by (meson option.exhaust)
  then show "fst (Patch_condition E args d p) = (False, None)"
    by (simp add: Patch_condition_def Let_def)
  from assms show "Client (snd (Patch_condition E args d p)) \<in> W"
    by (simp add: Patch_condition_def Let_def split: option.splits)
  show "calls (snd (Patch_condition E args d p))
           = calls p @ [Client_Pods_Patch (PodNamespace args) (PodName args) d]"
    by (simp add: Patch_condition_def Let_def split: option.splits)
qed

lemma WaitFor_Patch_rejected:
  assumes "\<forall>w \<in> W. fst (Pods_Patch E (PodNamespace args) (PodName args) d w) \<noteq> None
                   \<and> snd (Pods_Patch E (PodNamespace args) (PodName args) d w) \<in> W"
  shows "Client p \<in> W \<Longrightarrow>
         fst (WaitFor n (Patch_condition E args d) p) = Some ErrWaitTimeout
       \<and> calls (snd (WaitFor n (Patch_condition E args d) p))
           = calls p @ replicate (Suc n) (Client_Pods_Patch (PodNamespace args) (PodName args) d)"
proof (induction n arbitrary: p)
  case 0
  from Patch_condition_rejected [OF 0 assms] show ?case
    by (cases "Patch_condition E args d p") simp
next
  case (Suc n)
  note c = Patch_condition_rejected [OF Suc.prems assms]
  from Suc.IH [OF c(2)] c(1,3) show ?case
    by (cases "Patch_condition E args d p") (simp add: replicate_app_Cons_same)
qed

text \<open>
  C4. When the allocation step of \<open>Bind\<close> has succeeded and the orchestrator rejects the
  patch during the whole budget (it stays in a set \<open>W\<close> of states that reject it),
  \<open>Bind\<close> returns the error of the exhausted poll after one immediate attempt and one
  per tick and at the timeout, and does nothing but patch: the IPAM is the one the
  allocation step left, no release is invoked, and the key still owns the record.
\<close>

theorem Bind_patch_failure_keeps_allocation:
  fixes p :: "('i, 'w, 'f, 'd) FloatingIPPlugin"
  assumes "key = fmtKey E (PodName args) (PodNamespace args)"
      and "allocateIP E key (BindNode args) p = (Inr (Some bind), p')"
      and "Client p' \<in> W"
      and "\<forall>w \<in> W. \<forall>d. fst (Pods_Patch E (PodNamespace args) (PodName args) d w) \<noteq> None
                        \<and> snd (Pods_Patch E (PodNamespace args) (PodName args) d w) \<in> W"
  shows "fst (Bind E args p)
           = Some (Msg (''failed to update pod '' @ key @ '': '' @ Error_str ErrWaitTimeout))
       \<and> ipam (snd (Bind E args p)) = ipam p'
       \<and> (\<exists>d. calls (snd (Bind E args p))
                = calls p' @ replicate (patchTicks E + 2)
                               (Client_Pods_Patch (PodNamespace args) (PodName args) d))
       \<and> (\<exists>ipInfo. QueryFirst E (ipam (snd (Bind E args p))) key = Inr (Some ipInfo)
                     \<and> marshalBind E ipInfo = Inr (Some bind))"
proof -
  define d where "d = (case Marshal_Annotations E bind of Inl err \<Rightarrow> [] | Inr d \<Rightarrow> d)"
  define c :: "'f call" where "c = Client_Pods_Patch (PodNamespace args) (PodName args) d"
  have B: "Bind E args p = Bind_patch E args key bind p'"
    using assms(1,2) by (simp add: Bind_def)
  from assms(4)
  have rej: "\<forall>w \<in> W. fst (Pods_Patch E (PodNamespace args) (PodName args) d w) \<noteq> None
                   \<and> snd (Pods_Patch E (PodNamespace args) (PodName args) d w) \<in> W"
    by blast
  note first = Patch_condition_rejected [OF assms(3) rej]
  have f: "Patch_condition E args d p' = ((False, None), snd (Patch_condition E args d p'))"
    using first(1) by (cases "Patch_condition E args d p'") simp
  from WaitFor_Patch_rejected [OF rej first(2), of "patchTicks E"]
  have rest: "fst (WaitFor (patchTicks E) (Patch_condition E args d) (snd (Patch_condition E args d p')))
                = Some ErrWaitTimeout"
    "calls (snd (WaitFor (patchTicks E) (Patch_condition E args d) (snd (Patch_condition E args d p'))))
       = calls p' @ replicate (patchTicks E + 2) c"
    using first(3) by (simp_all add: c_def replicate_app_Cons_same)
  have P: "PollImmediate (patchTicks E) (Patch_condition E args d) p'
             = WaitFor (patchTicks E) (Patch_condition E args d) (snd (Patch_condition E args d p'))"
    by (subst PollImmediate_def, subst f) simp
  obtain x s where W: "WaitFor (patchTicks E) (Patch_condition E args d)
                          (snd (Patch_condition E args d p')) = (x, s)"
    by (cases "WaitFor (patchTicks E) (Patch_condition E args d)
                 (snd (Patch_condition E args d p'))")
  with rest have xs: "x = Some ErrWaitTimeout" "calls s = calls p' @ replicate (patchTicks E + 2) c"
    by simp_all
  have BP: "Bind E args p
           = (Some (Msg (''failed to update pod '' @ key @ '': '' @ Error_str ErrWaitTimeout)), s)"
    unfolding B Bind_patch_def d_def [symmetric] Let_def P W xs(1) by simp
  have r1: "fst (Bind E args p)
           = Some (Msg (''failed to update pod '' @ key @ '': '' @ Error_str ErrWaitTimeout))"
    by (simp only: BP fst_conv)
  have r3: "calls (snd (Bind E args p)) = calls p' @ replicate (patchTicks E + 2) c"
    using xs(2) by (simp only: BP snd_conv)
  have r2: "ipam (snd (Bind E args p)) = ipam p'"
    using Bind_patch_keeps [of E args key bind p'] by (simp add: B)
  from allocateIP_success [OF assms(2)] r2
  have r4: "\<exists>ipInfo. QueryFirst E (ipam (snd (Bind E args p))) key = Inr (Some ipInfo)
                     \<and> marshalBind E ipInfo = Inr (Some bind)"
    by simp
  from r1 r2 r3 r4 show ?thesis unfolding c_def by blast
qed

lemmas lookup_simps = queryNodeSubnet_def Poll_def Nodes_Get_condition_def Let_def
  numeral_2_eq_2

lemma allocate_plugin1:
  "allocateIP spec_env ''ns_p1'' ''n1'' plugin1
     = (Inr (Some bind1), plugin1\<lparr>ipam := ipam3, calls := allocated1\<rparr>)"
  by (simp add: allocateIP_def marshalBind_def ANNOTATION_FLOATINGIP_def lookup_simps
        node_simps env_simps plugin1_def ipam1_def ipam3_def world1_def bind1_def allocated1_def)

lemma allocate_plugin_rejecting:
  "allocateIP spec_env ''ns_p1'' ''n1'' plugin_rejecting
     = (Inr (Some bind1), plugin_rejecting\<lparr>ipam := ipam3, calls := allocated1\<rparr>)"
  by (simp add: allocateIP_def marshalBind_def ANNOTATION_FLOATINGIP_def lookup_simps
        node_simps env_simps plugin_rejecting_def plugin1_def ipam1_def ipam3_def world1_def
        bind1_def allocated1_def)

lemma key_args: "fmtKey spec_env (PodName args1) (PodNamespace args1) = ''ns_p1''"
  "fmtKey spec_env (PodName args2) (PodNamespace args2) = ''ns_p1''"
  "fmtKey spec_env (PodName args3) (PodNamespace args3) = ''ns_p1''"
  by (simp_all add: spec_env_def args1_def args2_def args3_def)

text \<open>
  The pod \<open>ns_p1\<close> owns nothing and is bound through \<open>n1\<close>; the second bind names the
  node \<open>n2\<close>, which has no subnet, and still reuses 10.0.0.1.
\<close>

theorem Bind_idempotent_per_key_witness:
  "QueryFirst spec_env (ipam plugin1) ''ns_p1'' = Inr None
   \<and> allocateIP spec_env ''ns_p1'' (BindNode args1) plugin1
       = (Inr (Some bind1), plugin1\<lparr>ipam := ipam3, calls := allocated1\<rparr>)
   \<and> QueryFirst spec_env ipam3 ''ns_p1''
       = Inr (Some \<lparr>info_IP = ''10.0.0.1'', info_Mask = 29, info_Vlan = 0,
                    info_Gateway = ''10.0.0.6'', info_RoutableSubnet = ''10.0.0.0/29''\<rparr>)
   \<and> allocateIP spec_env ''ns_p1'' (BindNode args2) (plugin_rejecting\<lparr>ipam := ipam3\<rparr>)
       = (Inr (Some bind1), plugin_rejecting\<lparr>ipam := ipam3\<rparr>)
   \<and> ipam (snd (Bind spec_env args2 (plugin_rejecting\<lparr>ipam := ipam3\<rparr>))) = ipam3
   \<and> filter is_IPAM_call (calls (snd (Bind spec_env args2 (plugin_rejecting\<lparr>ipam := ipam3\<rparr>)))) = []
   \<and> ipam (snd (Bind spec_env args1 (plugin1\<lparr>ipam := ipam3\<rparr>))) = ipam3
   \<and> filter is_IPAM_call (calls (snd (Bind spec_env args1 (plugin1\<lparr>ipam := ipam3\<rparr>)))) = []"
proof -
  let ?info = "\<lparr>info_IP = ''10.0.0.1'', info_Mask = 29, info_Vlan = 0,
                 info_Gateway = ''10.0.0.6'', info_RoutableSubnet = ''10.0.0.0/29''\<rparr>"
  have k: "''ns_p1'' = fmtKey spec_env (PodName args1) (PodNamespace args1)"
    by (simp add: key_args)
  have a: "allocateIP spec_env ''ns_p1'' (BindNode args1) plugin1
       = (Inr (Some bind1), plugin1\<lparr>ipam := ipam3, calls := allocated1\<rparr>)"
    using allocate_plugin1 by (simp add: args1_def)
  have q0: "QueryFirst spec_env (ipam plugin1) ''ns_p1'' = Inr None"
    by (simp add: env_simps plugin1_def ipam1_def)
  have q: "QueryFirst spec_env ipam3 ''ns_p1'' = Inr (Some ?info)"
    by (simp add: env_simps ipam3_def)
  have i: "ipam (plugin_rejecting\<lparr>ipam := ipam3\<rparr>) = ipam (plugin1\<lparr>ipam := ipam3, calls := allocated1\<rparr>)"
    by simp
  have c: "calls (plugin_rejecting\<lparr>ipam := ipam3\<rparr>) = []" "calls (plugin1\<lparr>ipam := ipam3\<rparr>) = []"
    by (simp_all add: plugin_rejecting_def plugin1_def)
  note second = Bind_idempotent_per_key [OF k, of plugin1 _ bind1
        "plugin1\<lparr>ipam := ipam3, calls := allocated1\<rparr>" args2 "plugin_rejecting\<lparr>ipam := ipam3\<rparr>"]
  from second a key_args(2) i
  have r: "allocateIP spec_env ''ns_p1'' (BindNode args2) (plugin_rejecting\<lparr>ipam := ipam3\<rparr>)
             = (Inr (Some bind1), plugin_rejecting\<lparr>ipam := ipam3\<rparr>)"
    "ipam (snd (Bind spec_env args2 (plugin_rejecting\<lparr>ipam := ipam3\<rparr>)))
       = ipam (plugin1\<lparr>ipam := ipam3, calls := allocated1\<rparr>)"
    "filter is_IPAM_call (calls (snd (Bind spec_env args2 (plugin_rejecting\<lparr>ipam := ipam3\<rparr>))))
       = filter is_IPAM_call (calls (plugin_rejecting\<lparr>ipam := ipam3\<rparr>))"
    by blast+
  have q': "QueryFirst spec_env (ipam (plugin1\<lparr>ipam := ipam3\<rparr>)) ''ns_p1'' = Inr (Some ?info)"
    using q by simp
  note reuse = Bind_idempotent_per_key [OF k, of "plugin1\<lparr>ipam := ipam3\<rparr>" ?info]
  from reuse q'
  have s: "ipam (snd (Bind spec_env args1 (plugin1\<lparr>ipam := ipam3\<rparr>))) = ipam (plugin1\<lparr>ipam := ipam3\<rparr>)"
    "filter is_IPAM_call (calls (snd (Bind spec_env args1 (plugin1\<lparr>ipam := ipam3\<rparr>))))
       = filter is_IPAM_call (calls (plugin1\<lparr>ipam := ipam3\<rparr>))"
    by blast+
  from r s c a q0 q show ?thesis by simp
qed

lemma rejecting_world:
  "Client (plugin_rejecting\<lparr>ipam := ipam3, calls := allocated1\<rparr>) \<in> {w. world_rejects_patch w}"
  "\<forall>w \<in> {w. world_rejects_patch w}. \<forall>d.
      fst (Pods_Patch spec_env (PodNamespace args1) (PodName args1) d w) \<noteq> None
    \<and> snd (Pods_Patch spec_env (PodNamespace args1) (PodName args1) d w) \<in> {w. world_rejects_patch w}"
  by (simp_all add: env_simps plugin_rejecting_def)

theorem Bind_patch_failure_keeps_allocation_witness:
  "allocateIP spec_env ''ns_p1'' (BindNode args1) plugin_rejecting
       = (Inr (Some bind1), plugin_rejecting\<lparr>ipam := ipam3, calls := allocated1\<rparr>)
   \<and> fst (Bind spec_env args1 plugin_rejecting)
       = Some (Msg ''failed to update pod ns_p1: timed out waiting for the condition'')
   \<and> ipam (snd (Bind spec_env args1 plugin_rejecting)) = ipam3
   \<and> (\<exists>d. calls (snd (Bind spec_env args1 plugin_rejecting))
            = allocated1 @ replicate 4 (Client_Pods_Patch ''ns'' ''p1'' d))
   \<and> (\<exists>ipInfo. QueryFirst spec_env (ipam (snd (Bind spec_env args1 plugin_rejecting))) ''ns_p1''
                   = Inr (Some ipInfo) \<and> info_IP ipInfo = ''10.0.0.1'')"
proof -
  have k: "''ns_p1'' = fmtKey spec_env (PodName args1) (PodNamespace args1)"
    by (simp add: key_args)
  have a: "allocateIP spec_env ''ns_p1'' (BindNode args1) plugin_rejecting
       = (Inr (Some bind1), plugin_rejecting\<lparr>ipam := ipam3, calls := allocated1\<rparr>)"
    using allocate_plugin_rejecting by (simp add: args1_def)
  note T = Bind_patch_failure_keeps_allocation [OF k a rejecting_world]
  have t: "patchTicks spec_env + 2 = 4" "PodNamespace args1 = ''ns''" "PodName args1 = ''p1''"
    by (simp_all add: spec_env_def args1_def)
  from T have 1: "fst (Bind spec_env args1 plugin_rejecting)
       = Some (Msg ''failed to update pod ns_p1: timed out waiting for the condition'')"
    by simp
  from T have 2: "ipam (snd (Bind spec_env args1 plugin_rejecting)) = ipam3"
    by simp
  from T have 3: "\<exists>d. calls (snd (Bind spec_env args1 plugin_rejecting))
            = allocated1 @ replicate 4 (Client_Pods_Patch ''ns'' ''p1'' d)"
    unfolding t by simp
  have 4: "\<exists>ipInfo. QueryFirst spec_env (ipam (snd (Bind spec_env args1 plugin_rejecting))) ''ns_p1''
                   = Inr (Some ipInfo) \<and> info_IP ipInfo = ''10.0.0.1''"
    unfolding 2 by (simp add: env_simps ipam3_def)
  from a 1 2 3 4 show ?thesis by blast
qed

subsection \<open>The subnet of the node at bind time\<close>

text \<open>
  For every environment: when the key owns nothing and the lookup of the node's subnet
  fails, \<open>allocateIP\<close> goes on to invoke \<open>AllocateInSubnet\<close> with the nil subnet, and the
  error of the lookup is lost.
\<close>

lemma queryNodeSubnet_n2:
  "fst (queryNodeSubnet spec_env ''n2'' plugin1) = Inl (Msg ''FloatingIPPlugin:UnknowNode'')"
  "fst (queryNodeSubnet spec_env ''n3'' plugin1) = Inl (Msg ''FloatingIPPlugin:NoFIPConfigNode'')"
  by (simp_all add: lookup_simps node_simps env_simps plugin1_def ipam1_def world1_def)

lemma allocateIP_drops_lookup_error:
  assumes "QueryFirst E (ipam p) key = Inr None"
      and "queryNodeSubnet E nodeName p = (Inl err, p')"
  shows "calls (snd (allocateIP E key nodeName p)) = calls p' @ [IPAM_AllocateInSubnet key None]"
    and "ipam (snd (allocateIP E key nodeName p)) = snd (AllocateInSubnet E key None (ipam p'))"
  using assms
  by (auto simp: allocateIP_def Let_def split: sum.splits option.splits)

text \<open>
  C3 says that a bind whose key owns nothing fails with the error of the subnet lookup
  (\<open>UnknowNode\<close>, \<open>NoFIPConfigNode\<close>) without invoking \<open>AllocateInSubnet\<close>. The source
  does otherwise: binding \<open>ns_p1\<close> to \<open>n2\<close> (no internal address) or to \<open>n3\<close> (an
  address outside every pool) invokes \<open>AllocateInSubnet\<close> with the nil subnet, and the
  bind returns what that call returns, here the reference IPAM's refusal.
\<close>

theorem Bind_allocates_without_subnet:
  "QueryFirst spec_env (ipam plugin1) (fmtKey spec_env (PodName args2) (PodNamespace args2)) = Inr None
   \<and> fst (queryNodeSubnet spec_env (BindNode args2) plugin1) = Inl (Msg ''FloatingIPPlugin:UnknowNode'')
   \<and> fst (AllocateInSubnet spec_env ''ns_p1'' None (ipam plugin1)) = Inl (Msg ''nil subnet'')
   \<and> calls (snd (Bind spec_env args2 plugin1))
       = [Client_Nodes_Get ''n2'', IPAM_AllocateInSubnet ''ns_p1'' None]
   \<and> fst (Bind spec_env args2 plugin1) = Some (Msg ''nil subnet'')
   \<and> fst (queryNodeSubnet spec_env (BindNode args3) plugin1) = Inl (Msg ''FloatingIPPlugin:NoFIPConfigNode'')
   \<and> calls (snd (Bind spec_env args3 plugin1))
       = [Client_Nodes_Get ''n3'', IPAM_AllocateInSubnet ''ns_p1'' None]
   \<and> fst (Bind spec_env args3 plugin1) = Some (Msg ''nil subnet'')"
  by (simp add: Bind_def allocateIP_def lookup_simps node_simps env_simps plugin1_def ipam1_def
        world1_def args2_def args3_def)

subsection \<open>The node-subnet cache\<close>

lemma Nodes_Get_condition_fetched:
  assumes "Nodes_Get_condition E nodeName s = ((ok, None), (node, p'))" and "ok"
  shows "node \<noteq> None"
  using assms
  by (auto simp: Nodes_Get_condition_def Let_def split: prod.splits sum.splits if_splits)

text \<open>A wait for the node that ends without error has the node.\<close>

lemma WaitFor_Nodes_Get_fetched:
  "WaitFor n (Nodes_Get_condition E nodeName) s = (None, (node, p')) \<Longrightarrow> node \<noteq> None"
proof (induction n arbitrary: s)
  case 0
  then show ?case
    by (cases "Nodes_Get_condition E nodeName s")
       (auto split: option.splits if_splits dest: Nodes_Get_condition_fetched)
next
  case (Suc n)
  then show ?case
    by (cases "Nodes_Get_condition E nodeName s")
       (auto split: option.splits if_splits dest: Nodes_Get_condition_fetched)
qed

text \<open>No lookup writes the cache: whatever it returns, \<open>nodeSubnet\<close> is as before.\<close>

lemma Nodes_Get_condition_keeps:
  "nodeSubnet (snd (snd (Nodes_Get_condition E nodeName s))) = nodeSubnet (snd s)"
  by (simp add: Nodes_Get_condition_def Let_def split: prod.splits)

lemma WaitFor_Nodes_Get_keeps:
  "nodeSubnet (snd (snd (WaitFor n (Nodes_Get_condition E nodeName) s))) = nodeSubnet (snd s)"
proof (induction n arbitrary: s)
  case 0
  show ?case
    using Nodes_Get_condition_keeps [of E nodeName s]
    by (cases "Nodes_Get_condition E nodeName s") (auto split: option.splits)
next
  case (Suc n)
  show ?case
    using Nodes_Get_condition_keeps [of E nodeName s]
          Suc.IH [of "snd (Nodes_Get_condition E nodeName s)"]
    by (cases "Nodes_Get_condition E nodeName s") (auto split: option.splits)
qed

lemma queryNodeSubnet_keeps_cache:
  "nodeSubnet (snd (queryNodeSubnet E nodeName p)) = nodeSubnet p"
  using WaitFor_Nodes_Get_keeps [of "nodeTicks E" E nodeName "(None, p)"]
  by (auto simp: queryNodeSubnet_def Poll_def split: option.splits prod.splits)

text \<open>
  C5 says that a successful lookup leaves an entry for the node in the cache, so that the
  next lookup fetches nothing. The source never stores one: after the lookup of \<open>n1\<close>
  succeeds at filter time and at bind time the cache has no entry for \<open>n1\<close>, and a
  second bind-time lookup fetches the node again.
\<close>

theorem lookup_leaves_cache_empty:
  "nodeSubnet plugin1 ''n1'' = None
   \<and> getNodeSubnet spec_env plugin1 n1 = Inr (IPNet ''10.0.0.0/29'')
   \<and> fst (queryNodeSubnet spec_env ''n1'' plugin1) = Inr (IPNet ''10.0.0.0/29'')
   \<and> nodeSubnet (snd (queryNodeSubnet spec_env ''n1'' plugin1)) ''n1'' = None
   \<and> calls (snd (queryNodeSubnet spec_env ''n1'' plugin1)) = [Client_Nodes_Get ''n1'']
   \<and> calls (snd (queryNodeSubnet spec_env ''n1'' (snd (queryNodeSubnet spec_env ''n1'' plugin1))))
       = [Client_Nodes_Get ''n1'', Client_Nodes_Get ''n1'']"
  by (simp add: lookup_simps node_simps env_simps plugin1_def ipam1_def world1_def)

subsection \<open>The pool watcher\<close>

text \<open>
  For every environment: a fetched value that differs and parses is recorded as the last
  configuration before \<open>ConfigurePool\<close> runs and whatever it returns, and a fetch of the
  recorded value configures nothing.
\<close>

lemma updateConfigMap_commits_before_configure:
  assumes "fst (ConfigMaps_Get E (ConfigMapNamespace (conf p)) (ConfigMapName (conf p)) (Client p))
             = Inr cm_Data"
      and "cm_Data ''floatingips'' = Some val" and "val \<noteq> lastFIPConf p"
      and "Unmarshal_FloatingIPs E val = Inr defs"
  shows "fst (updateConfigMap E p) = (True, None)"
    and "lastFIPConf (snd (updateConfigMap E p)) = val"
    and "ipam (snd (updateConfigMap E p)) = snd (ConfigurePool E defs (ipam p))"
  using assms by (simp_all add: updateConfigMap_def Let_def)

lemma updateConfigMap_unchanged:
  assumes "fst (ConfigMaps_Get E (ConfigMapNamespace (conf p)) (ConfigMapName (conf p)) (Client p))
             = Inr cm_Data"
      and "cm_Data ''floatingips'' = Some (lastFIPConf p)"
  shows "fst (updateConfigMap E p) = (False, None)"
    and "calls (snd (updateConfigMap E p))
           = calls p @ [Client_ConfigMaps_Get (ConfigMapNamespace (conf p)) (ConfigMapName (conf p))]"
    and "ipam (snd (updateConfigMap E p)) = ipam p"
  using assms by (simp_all add: updateConfigMap_def Let_def)

lemma updateConfigMap_overlap:
  "updateConfigMap spec_env plugin_overlap
     = ((True, None),
        plugin_overlap\<lparr>lastFIPConf := ''pool-overlap'',
                       calls := [Client_ConfigMaps_Get ''kube-system'' ''floatingip-config'',
                                 IPAM_ConfigurePool overlap_defs]\<rparr>)"
  by (simp add: updateConfigMap_def Let_def env_simps plugin_overlap_def plugin1_def conf1_def
        world_overlap_def world1_def overlap_defs_def ipam1_def)

text \<open>
  C6 says that after a failed \<open>ConfigurePool\<close> a later poll that sees the same value
  configures again. The source does not: the configmap holds a well-formed document that
  defines an address twice, the first update invokes \<open>ConfigurePool\<close>, which fails, and
  reports an update; the second update sees the value unchanged and only fetches.
\<close>

theorem failed_pool_is_not_retried:
  "fst (ConfigurePool spec_env overlap_defs (ipam plugin_overlap)) = Some (Msg ''ConfigError'')
   \<and> lastFIPConf plugin_overlap \<noteq> ''pool-overlap''
   \<and> fst (updateConfigMap spec_env plugin_overlap) = (True, None)
   \<and> calls (snd (updateConfigMap spec_env plugin_overlap))
       = [Client_ConfigMaps_Get ''kube-system'' ''floatingip-config'',
          IPAM_ConfigurePool overlap_defs]
   \<and> fst (updateConfigMap spec_env (snd (updateConfigMap spec_env plugin_overlap))) = (False, None)
   \<and> calls (snd (updateConfigMap spec_env (snd (updateConfigMap spec_env plugin_overlap))))
       = [Client_ConfigMaps_Get ''kube-system'' ''floatingip-config'',
          IPAM_ConfigurePool overlap_defs,
          Client_ConfigMaps_Get ''kube-system'' ''floatingip-config'']"
  unfolding updateConfigMap_overlap
  by (simp add: updateConfigMap_def Let_def env_simps plugin_overlap_def plugin1_def conf1_def
        world_overlap_def world1_def overlap_defs_def ipam1_def)

subsection \<open>Construction\<close>

text \<open>
  The constructor's poll ends only with an update that fetched and parsed a value and
  invoked \<open>ConfigurePool\<close> on it as its last call; the result of that call is not read.
\<close>

lemma updateConfigMap_condition_no_error:
  "snd (fst (updateConfigMap_condition E p)) = None"
  by (simp add: updateConfigMap_condition_def split: prod.splits)

lemma updateConfigMap_condition_done:
  assumes "fst (fst (updateConfigMap_condition E p))"
  shows "\<exists>defs. Unmarshal_FloatingIPs E (lastFIPConf (snd (updateConfigMap_condition E p))) = Inr defs
              \<and> calls (snd (updateConfigMap_condition E p))
                  = calls p @ [Client_ConfigMaps_Get (ConfigMapNamespace (conf p))
                                                      (ConfigMapName (conf p)),
                               IPAM_ConfigurePool defs]
              \<and> ipam (snd (updateConfigMap_condition E p)) = snd (ConfigurePool E defs (ipam p))"
  using assms
  by (auto simp: updateConfigMap_condition_def updateConfigMap_def Let_def
           split: prod.splits sum.splits option.splits if_splits)

lemma PollInfinite_updateConfigMap:
  fixes E :: "('i, 'w, 'f, 'd) env"
  assumes "PollInfinite (updateConfigMap_condition E) p = Some (r, p')"
  shows "r = None \<and> (\<exists>defs. Unmarshal_FloatingIPs E (lastFIPConf p') = Inr defs
           \<and> calls p' \<noteq> [] \<and> last (calls p') = IPAM_ConfigurePool defs)"
proof -
  let ?Q = "\<lambda>y. fst y = None \<and> (\<exists>defs. Unmarshal_FloatingIPs E (lastFIPConf (snd y)) = Inr defs
           \<and> calls (snd y) \<noteq> [] \<and> last (calls (snd y)) = IPAM_ConfigurePool defs)"
  have "updateConfigMap_condition E = updateConfigMap_condition E \<longrightarrow> ?Q (r, p')"
  proof (rule PollInfinite.raw_induct
           [where P = "\<lambda>c s y. c = updateConfigMap_condition E \<longrightarrow> ?Q y", OF _ assms])
    fix poll :: "(('i, 'w, 'f, 'd) FloatingIPPlugin \<Rightarrow> (bool \<times> error option) \<times> ('i, 'w, 'f, 'd) FloatingIPPlugin)
                 \<Rightarrow> ('i, 'w, 'f, 'd) FloatingIPPlugin
                 \<Rightarrow> (error option \<times> ('i, 'w, 'f, 'd) FloatingIPPlugin) option"
      and condition s y
    assume IH: "\<And>c s y. poll c s = Some y \<Longrightarrow> c = updateConfigMap_condition E \<longrightarrow> ?Q y"
      and eq: "(case snd (fst (condition s)) of
                  None \<Rightarrow> if fst (fst (condition s)) then Some (None, snd (condition s))
                           else poll condition (snd (condition s))
                | Some err \<Rightarrow> Some (Some err, snd (condition s))) = Some y"
    show "condition = updateConfigMap_condition E \<longrightarrow> ?Q y"
    proof
      assume c: "condition = updateConfigMap_condition E"
      show "?Q y"
      proof (cases "fst (fst (condition s))")
        case True
        with eq c have y: "y = (None, snd (updateConfigMap_condition E s))"
          by (simp add: updateConfigMap_condition_no_error)
        from updateConfigMap_condition_done [of E s] True c y show ?thesis by auto
      next
        case False
        with eq c have "poll condition (snd (condition s)) = Some y"
          by (simp add: updateConfigMap_condition_no_error)
        from IH [OF this] c show ?thesis by simp
      qed
    qed
  qed
  then show ?thesis by simp
qed

lemma NewFloatingIPPlugin_polled:
  assumes "FloatingIPs c = []" and "NewFloatingIPPlugin E c w = Some (Inr plugin)"
  shows "\<exists>defs. Unmarshal_FloatingIPs E (lastFIPConf plugin) = Inr defs
           \<and> calls plugin \<noteq> [] \<and> last (calls plugin) = IPAM_ConfigurePool defs"
  using assms
  by (auto simp: NewFloatingIPPlugin_def Let_def
           split: sum.splits option.splits prod.splits if_splits
           dest!: PollInfinite_updateConfigMap)

lemma updateConfigMap_condition_boot:
  "updateConfigMap_condition spec_env
     \<lparr>ipam = \<lparr>table = [], routes = [(''10.0.0.254'', ''10.0.0.0/29'')]\<rparr>, nodeSubnet = Map.empty,
      Client = world_overlap, lastFIPConf = [], conf = conf1, unreleased = [], calls = []\<rparr>
   = ((True, None),
      \<lparr>ipam = \<lparr>table = [], routes = [(''10.0.0.254'', ''10.0.0.0/29'')]\<rparr>, nodeSubnet = Map.empty,
       Client = world_overlap, lastFIPConf = ''pool-overlap'', conf = conf1, unreleased = [],
       calls = [Client_ConfigMaps_Get ''kube-system'' ''floatingip-config'',
                IPAM_ConfigurePool overlap_defs]\<rparr>)"
  by (simp add: updateConfigMap_condition_def updateConfigMap_def Let_def env_simps conf1_def
        world_overlap_def world1_def overlap_defs_def)

text \<open>
  C8 says that without inline pool definitions the constructor does not return until a
  poll has fetched the pool configuration and it is applied. With the configmap of the
  overlapping document the first poll fetches and parses it, \<open>ConfigurePool\<close> fails, and
  the constructor returns a plugin whose IPAM has no pool: no subnet has a free IP.
\<close>

theorem startup_returns_without_pool:
  "fst (ConfigurePool spec_env overlap_defs \<lparr>table = [], routes = [(''10.0.0.254'', ''10.0.0.0/29'')]\<rparr>)
     = Some (Msg ''ConfigError'')
   \<and> NewFloatingIPPlugin spec_env conf1 world_overlap
     = Some (Inr \<lparr>ipam = \<lparr>table = [], routes = [(''10.0.0.254'', ''10.0.0.0/29'')]\<rparr>,
                  nodeSubnet = Map.empty, Client = world_overlap, lastFIPConf = ''pool-overlap'',
                  conf = conf1, unreleased = [],
                  calls = [Client_ConfigMaps_Get ''kube-system'' ''floatingip-config'',
                           IPAM_ConfigurePool overlap_defs]\<rparr>)
   \<and> QueryRoutableSubnetByKey spec_env \<lparr>table = [], routes = [(''10.0.0.254'', ''10.0.0.0/29'')]\<rparr> []
     = Inr []"
proof -
  have P: "PollInfinite (updateConfigMap_condition spec_env)
     \<lparr>ipam = \<lparr>table = [], routes = [(''10.0.0.254'', ''10.0.0.0/29'')]\<rparr>, nodeSubnet = Map.empty,
      Client = world_overlap, lastFIPConf = [], conf = conf1, unreleased = [], calls = []\<rparr>
   = Some (None,
      \<lparr>ipam = \<lparr>table = [], routes = [(''10.0.0.254'', ''10.0.0.0/29'')]\<rparr>, nodeSubnet = Map.empty,
       Client = world_overlap, lastFIPConf = ''pool-overlap'', conf = conf1, unreleased = [],
       calls = [Client_ConfigMaps_Get ''kube-system'' ''floatingip-config'',
                IPAM_ConfigurePool overlap_defs]\<rparr>)"
    by (subst PollInfinite.simps) (simp add: updateConfigMap_condition_boot)
  have c: "FloatingIPs conf1 = []" "ResyncInterval conf1 = 1" "ConfigMapName conf1 \<noteq> []"
    "ConfigMapNamespace conf1 \<noteq> []" "DBConfig conf1 = ()"
    by (simp_all add: conf1_def)
  have d: "db_Run spec_env () = Inr \<lparr>table = [], routes = [(''10.0.0.254'', ''10.0.0.0/29'')]\<rparr>"
    by (simp add: spec_env_def)
  have N: "NewFloatingIPPlugin spec_env conf1 world_overlap
     = Some (Inr \<lparr>ipam = \<lparr>table = [], routes = [(''10.0.0.254'', ''10.0.0.0/29'')]\<rparr>,
                  nodeSubnet = Map.empty, Client = world_overlap, lastFIPConf = ''pool-overlap'',
                  conf = conf1, unreleased = [],
                  calls = [Client_ConfigMaps_Get ''kube-system'' ''floatingip-config'',
                           IPAM_ConfigurePool overlap_defs]\<rparr>)"
    by (simp add: NewFloatingIPPlugin_def c d P)
  show ?thesis
    by (simp add: N) (simp add: env_simps overlap_defs_def)
qed

end
